theory Spec2Isabelle
  imports Complex_Main
begin

section \<open>Data model of App.tsx\<close>

text \<open>
  The JavaScript numbers of the source (positions, velocities, speeds) are modelled as
  real numbers, so rounding of IEEE doubles is not represented.  Counters and the score,
  which only ever hold non-negative integers, are natural numbers; clock readings
  (\<^verbatim>\<open>Date.now()\<close>) are integers.
\<close>

datatype GameState = Menu | Playing | Gameover

datatype ObstacleType = Rock | Wave | Seagull | Jellyfish

text \<open>
  \<^verbatim>\<open>interface Obstacle { id; x; y; type; width; height }\<close>.  The fields carry the prefix
  \<open>obs_\<close> because \<open>id\<close> is a constant of HOL and \<open>x\<close>, \<open>y\<close> are fields of
  \<^verbatim>\<open>Particle\<close> too.
\<close>

record Obstacle =
  obs_id :: nat
  obs_x :: real
  obs_y :: real
  obs_type :: ObstacleType
  obs_width :: real
  obs_height :: real

text \<open>\<^verbatim>\<open>interface Particle { id; x; y; vx; vy; life; color }\<close>, fields prefixed \<open>p_\<close>.\<close>

record Particle =
  p_id :: nat
  p_x :: real
  p_y :: real
  p_vx :: real
  p_vy :: real
  p_life :: real
  p_color :: string

definition GAME_WIDTH :: real where "GAME_WIDTH = 800"
definition GAME_HEIGHT :: real where "GAME_HEIGHT = 400"
definition GROUND_Y :: real where "GROUND_Y = 320"
definition CRAB_WIDTH :: real where "CRAB_WIDTH = 50"
definition CRAB_HEIGHT :: real where "CRAB_HEIGHT = 40"
definition GRAVITY :: real where "GRAVITY = 0.8"
definition JUMP_FORCE :: real where "JUMP_FORCE = -15"
definition SLIDE_HEIGHT :: real where "SLIDE_HEIGHT = 20"

lemmas constants =
  GAME_WIDTH_def GAME_HEIGHT_def GROUND_Y_def CRAB_WIDTH_def CRAB_HEIGHT_def
  GRAVITY_def JUMP_FORCE_def SLIDE_HEIGHT_def

section \<open>Collision detection\<close>

text \<open>
  \<^verbatim>\<open>checkCollision(crabYPos, sliding)\<close> closes over the obstacle list of the current
  render; the list is the first argument here.  \<open>crabX\<close>, \<open>crabH\<close> and \<open>crabYOffset\<close>
  are the three local constants computed before the loop.
\<close>

definition crabX :: real where
  "crabX = 100"

definition crabH :: "bool \<Rightarrow> real" where
  "crabH sliding = (if sliding then SLIDE_HEIGHT else CRAB_HEIGHT)"

definition crabYOffset :: "real \<Rightarrow> bool \<Rightarrow> real" where
  "crabYOffset crabYPos sliding = (if sliding then GROUND_Y - SLIDE_HEIGHT else crabYPos)"

text \<open>The condition of the \<^verbatim>\<open>if\<close> inside the loop, for one obstacle.\<close>

definition hits :: "real \<Rightarrow> bool \<Rightarrow> Obstacle \<Rightarrow> bool" where
  "hits crabYPos sliding obs =
     (let obsRight = obs_x obs + obs_width obs;
          obsBottom = obs_y obs + obs_height obs;
          crabRight = crabX + CRAB_WIDTH;
          crabBottom = crabYOffset crabYPos sliding + crabH sliding
      in crabX < obsRight \<and>
         crabRight > obs_x obs \<and>
         crabYOffset crabYPos sliding < obsBottom \<and>
         crabBottom > obs_y obs)"

text \<open>The \<^verbatim>\<open>for ... of\<close> loop: return true at the first hit, false after the last obstacle.\<close>

fun checkCollision :: "Obstacle list \<Rightarrow> real \<Rightarrow> bool \<Rightarrow> bool" where
  "checkCollision [] crabYPos sliding = False"
| "checkCollision (obs # rest) crabYPos sliding =
     (if hits crabYPos sliding obs then True else checkCollision rest crabYPos sliding)"

section \<open>Application state\<close>

text \<open>
  The component's \<^verbatim>\<open>useState\<close> cells and \<^verbatim>\<open>useRef\<close> cells, under the names of the
  source.  \<open>gameLoopRef\<close> is true while the animation-frame request whose handle is stored
  in \<^verbatim>\<open>gameLoopRef.current\<close> has neither run nor been cancelled.  Three parts of the
  environment the component reads or writes are fields too: \<open>localStorage\<close> (the saved
  high score), \<open>slideTimeouts\<close> (the number of pending
  \<^verbatim>\<open>setTimeout(() => setIsSliding(false), 500)\<close> timers) and \<open>randomSource\<close> (the
  results of the coming calls of \<^verbatim>\<open>Math.random()\<close>, each in the interval from 0 to 1).
\<close>

record App =
  gameState :: GameState
  score :: nat
  highScore :: nat
  crabY :: real
  crabVelocity :: real
  isSliding :: bool
  isJumping :: bool
  obstacles :: "Obstacle list"
  particles :: "Particle list"
  gameSpeed :: real
  parallaxOffset :: real
  gameLoopRef :: bool
  obstacleIdRef :: nat
  particleIdRef :: nat
  lastObstacleTimeRef :: int
  frameCountRef :: nat
  localStorage :: "nat option"
  slideTimeouts :: nat
  randomSource :: "nat \<Rightarrow> real"

text \<open>The state of the first render: the \<^verbatim>\<open>useState\<close> and \<^verbatim>\<open>useRef\<close> initial values.\<close>

definition initial :: "nat option \<Rightarrow> (nat \<Rightarrow> real) \<Rightarrow> App" where
  "initial saved rnd =
     \<lparr>gameState = Menu, score = 0,
      highScore = (case saved of Some h \<Rightarrow> h | None \<Rightarrow> 0),
      crabY = GROUND_Y - CRAB_HEIGHT, crabVelocity = 0,
      isSliding = False, isJumping = False,
      obstacles = [], particles = [],
      gameSpeed = 6, parallaxOffset = 0,
      gameLoopRef = False, obstacleIdRef = 0, particleIdRef = 0,
      lastObstacleTimeRef = 0, frameCountRef = 0,
      localStorage = saved, slideTimeouts = 0, randomSource = rnd\<rparr>"

text \<open>
  The player's stance, read off the two flags the way \<^verbatim>\<open>checkCollision\<close> and
  \<^verbatim>\<open>renderCrab\<close> read them: the slide flag decides first.
\<close>

datatype Stance = Standing | Jumping | Sliding

definition stance :: "App \<Rightarrow> Stance" where
  "stance s = (if isSliding s then Sliding else if isJumping s then Jumping else Standing)"

section \<open>Random numbers, particles and obstacles\<close>

text \<open>One call of \<^verbatim>\<open>Math.random()\<close>: the head of the source, which then moves on.\<close>

definition Math_random :: "App \<Rightarrow> real \<times> App" where
  "Math_random s = (randomSource s 0, s\<lparr>randomSource := (\<lambda>i. randomSource s (Suc i))\<rparr>)"

text \<open>
  The \<^verbatim>\<open>for\<close> loop of \<^verbatim>\<open>createParticles\<close>, which fills \<^verbatim>\<open>newParticles\<close>; the first
  argument is the number of rounds left.
\<close>

fun newParticles :: "nat \<Rightarrow> real \<Rightarrow> real \<Rightarrow> string \<Rightarrow> App \<Rightarrow> Particle list \<times> App" where
  "newParticles 0 x y color s = ([], s)"
| "newParticles (Suc n) x y color s =
     (let pid = particleIdRef s;
          s0 = s\<lparr>particleIdRef := pid + 1\<rparr>;
          (r1, s1) = Math_random s0;
          (r2, s2) = Math_random s1;
          (r3, s3) = Math_random s2;
          p = \<lparr>p_id = pid, p_x = x, p_y = y,
               p_vx = (r1 - 0.5) * 8, p_vy = (r2 - 1) * 6,
               p_life = 30 + r3 * 20, p_color = color\<rparr>;
          (ps, s4) = newParticles n x y color s3
      in (p # ps, s4))"

definition createParticles :: "real \<Rightarrow> real \<Rightarrow> nat \<Rightarrow> string \<Rightarrow> App \<Rightarrow> App" where
  "createParticles x y count color s =
     (let (ps, s1) = newParticles count x y color s
      in s1\<lparr>particles := particles s1 @ ps\<rparr>)"

text \<open>
  \<^verbatim>\<open>types[Math.floor(Math.random() * types.length)]\<close>.  \<^verbatim>\<open>Math.random()\<close> returns a
  value from 0 (included) to 1 (excluded), so the index is 0, 1, 2 or 3.
\<close>

definition pickType :: "real \<Rightarrow> ObstacleType" where
  "pickType r =
     (let i = \<lfloor>r * 4\<rfloor>
      in if i \<le> 0 then Rock else if i = 1 then Wave else if i = 2 then Seagull else Jellyfish)"

text \<open>
  \<^verbatim>\<open>spawnObstacle\<close>.  The id is taken (and the counter moved) when the updater given to
  \<^verbatim>\<open>setObstacles\<close> runs; nothing else reads the counter between the call and that
  moment, so both happen here.
\<close>

definition spawnObstacle :: "App \<Rightarrow> App" where
  "spawnObstacle s =
     (let (r, s1) = Math_random s;
          type = pickType r;
          (y, width, height, s2) =
            (case type of
               Rock \<Rightarrow> (GROUND_Y - 35, 45, 35, s1)
             | Wave \<Rightarrow> (GROUND_Y - 50, 60, 50, s1)
             | Seagull \<Rightarrow> (let (r', s') = Math_random s1 in (GROUND_Y - 100 - r' * 60, 50, 30, s'))
             | Jellyfish \<Rightarrow> (let (r', s') = Math_random s1 in (GROUND_Y - 70 - r' * 40, 35, 45, s')));
          obs = \<lparr>obs_id = obstacleIdRef s2, obs_x = GAME_WIDTH + 50, obs_y = y,
                 obs_type = type, obs_width = width, obs_height = height\<rparr>
      in s2\<lparr>obstacleIdRef := obstacleIdRef s2 + 1, obstacles := obstacles s2 @ [obs]\<rparr>)"

section \<open>The frame callback\<close>

text \<open>The \<^verbatim>\<open>%\<close> of JavaScript on numbers: the quotient is truncated towards zero.\<close>

definition js_rem :: "real \<Rightarrow> real \<Rightarrow> real" where
  "js_rem a b = a - b * of_int (if 0 \<le> a / b then \<lfloor>a / b\<rfloor> else \<lceil>a / b\<rceil>)"

text \<open>
  The blocks of \<^verbatim>\<open>gameLoop\<close>, named after their comments.  The values \<^verbatim>\<open>gameLoop\<close>
  reads from its closure (\<^verbatim>\<open>crabVelocity\<close>, \<^verbatim>\<open>gameSpeed\<close>, \<^verbatim>\<open>isJumping\<close>,
  \<^verbatim>\<open>score\<close>) are arguments; what an updater function receives as \<^verbatim>\<open>prev\<close> is read
  from the state.
\<close>

definition updateParallax :: "real \<Rightarrow> App \<Rightarrow> App" where
  "updateParallax speed s = s\<lparr>parallaxOffset := js_rem (parallaxOffset s + speed * 0.5) 800\<rparr>"

definition updateCrabPhysics :: "real \<Rightarrow> bool \<Rightarrow> App \<Rightarrow> App" where
  "updateCrabPhysics velocity jumping s =
     (let prevY = crabY s in
      if jumping \<or> prevY < GROUND_Y - CRAB_HEIGHT then
        (let newVel = velocity + GRAVITY;
             newY = prevY + newVel;
             s1 = s\<lparr>crabVelocity := newVel\<rparr>
         in if newY \<ge> GROUND_Y - CRAB_HEIGHT
            then s1\<lparr>crabVelocity := 0, isJumping := False, crabY := GROUND_Y - CRAB_HEIGHT\<rparr>
            else s1\<lparr>crabY := newY\<rparr>)
      else s\<lparr>crabY := prevY\<rparr>)"

text \<open>The updater given to \<^verbatim>\<open>setObstacles\<close>: move every obstacle, then drop those at or beyond -100.\<close>

definition advanceObstacles :: "real \<Rightarrow> Obstacle list \<Rightarrow> Obstacle list" where
  "advanceObstacles speed prev =
     filter (\<lambda>obs. obs_x obs > -100) (map (\<lambda>obs. obs\<lparr>obs_x := obs_x obs - speed\<rparr>) prev)"

definition updateObstacles :: "real \<Rightarrow> App \<Rightarrow> App" where
  "updateObstacles speed s = s\<lparr>obstacles := advanceObstacles speed (obstacles s)\<rparr>"

definition updateParticles :: "App \<Rightarrow> App" where
  "updateParticles s =
     s\<lparr>particles :=
         filter (\<lambda>p. p_life p > 0)
           (map (\<lambda>p. p\<lparr>p_x := p_x p + p_vx p, p_y := p_y p + p_vy p,
                       p_vy := p_vy p + 0.3, p_life := p_life p - 1\<rparr>)
              (particles s))\<rparr>"

text \<open>The right-hand side of the spawn test, \<^verbatim>\<open>1500 - Math.min(score * 2, 800)\<close>.\<close>

definition spawnInterval :: "nat \<Rightarrow> int" where
  "spawnInterval sc = 1500 - min (int sc * 2) 800"

definition spawnObstacles :: "int \<Rightarrow> nat \<Rightarrow> App \<Rightarrow> App" where
  "spawnObstacles now sc s =
     (if now - lastObstacleTimeRef s > spawnInterval sc
      then (spawnObstacle s)\<lparr>lastObstacleTimeRef := now\<rparr>
      else s)"

definition increaseDifficulty :: "App \<Rightarrow> App" where
  "increaseDifficulty s =
     (if frameCountRef s mod 300 = 0 then s\<lparr>gameSpeed := min (gameSpeed s + 0.5) 15\<rparr> else s)"

definition updateScore :: "App \<Rightarrow> App" where
  "updateScore s = (if frameCountRef s mod 10 = 0 then s\<lparr>score := score s + 1\<rparr> else s)"

definition sandParticles :: "App \<Rightarrow> App" where
  "sandParticles s =
     (if frameCountRef s mod 5 = 0 then createParticles 110 (GROUND_Y - 5) 1 ''#ffcc80'' s else s)"

text \<open>
  \<^verbatim>\<open>gameLoop\<close>, run at the clock reading \<open>now\<close> in the render whose state is \<open>s\<close>: the
  counter goes up, the blocks run top to bottom, and the last line requests the next frame.
\<close>

definition gameLoop :: "int \<Rightarrow> App \<Rightarrow> App" where
  "gameLoop now s =
     (let s0 = s\<lparr>frameCountRef := frameCountRef s + 1\<rparr>;
          s1 = updateParallax (gameSpeed s) s0;
          s2 = updateCrabPhysics (crabVelocity s) (isJumping s) s1;
          s3 = updateObstacles (gameSpeed s) s2;
          s4 = updateParticles s3;
          s5 = spawnObstacles now (score s) s4;
          s6 = increaseDifficulty s5;
          s7 = updateScore s6;
          s8 = sandParticles s7
      in s8\<lparr>gameLoopRef := True\<rparr>)"

section \<open>Effects\<close>

text \<open>
  The body of the collision effect, run in the render whose state is \<open>r\<close>; its state
  updates go to \<open>s\<close>.
\<close>

definition collisionEffect :: "App \<Rightarrow> App \<Rightarrow> App" where
  "collisionEffect r s =
     (if gameState r = Playing \<and> checkCollision (obstacles r) (crabY r) (isSliding r) then
        (let s1 = s\<lparr>gameState := Gameover\<rparr>;
             s2 = (if score r > highScore r
                   then s1\<lparr>highScore := score r, localStorage := Some (score r)\<rparr>
                   else s1)
         in createParticles 120 (crabY r + 20) 20 ''#ff2d95'' s2)
      else s)"

text \<open>The effect that owns the frame request: its cleanup, then its body.\<close>

definition loopCleanup :: "App \<Rightarrow> App" where
  "loopCleanup s = s\<lparr>gameLoopRef := False\<rparr>"

definition loopEffect :: "int \<Rightarrow> App \<Rightarrow> App \<Rightarrow> App" where
  "loopEffect now r s =
     (if gameState r = Playing
      then s\<lparr>frameCountRef := 0, lastObstacleTimeRef := now, gameLoopRef := True\<rparr>
      else s)"

text \<open>
  Whether a dependency of an effect differs between the previous render \<open>p\<close> and the
  present one \<open>r\<close>.  \<^verbatim>\<open>gameLoop\<close> is a new function when one of \<^verbatim>\<open>crabVelocity\<close>,
  \<^verbatim>\<open>gameSpeed\<close>, \<^verbatim>\<open>isJumping\<close>, \<^verbatim>\<open>score\<close> has changed; \<^verbatim>\<open>checkCollision\<close> is a new
  function when \<^verbatim>\<open>obstacles\<close> is a new array, which \<open>fresh\<close> tells (every frame callback
  stores a new array).  The callbacks \<^verbatim>\<open>spawnObstacle\<close> and \<^verbatim>\<open>createParticles\<close> never
  change.
\<close>

definition loopDeps :: "App \<Rightarrow> App \<Rightarrow> bool" where
  "loopDeps p r \<longleftrightarrow>
     gameState p \<noteq> gameState r \<or> crabVelocity p \<noteq> crabVelocity r \<or>
     gameSpeed p \<noteq> gameSpeed r \<or> isJumping p \<noteq> isJumping r \<or> score p \<noteq> score r"

definition collisionDeps :: "bool \<Rightarrow> App \<Rightarrow> App \<Rightarrow> bool" where
  "collisionDeps fresh p r \<longleftrightarrow>
     gameState p \<noteq> gameState r \<or> crabY p \<noteq> crabY r \<or> isSliding p \<noteq> isSliding r \<or>
     fresh \<or> score p \<noteq> score r \<or> highScore p \<noteq> highScore r"

text \<open>
  One render and its effects: the cleanups of the effects whose dependencies changed, then
  their bodies in the order of declaration.
\<close>

definition commit :: "int \<Rightarrow> bool \<Rightarrow> App \<Rightarrow> App \<Rightarrow> App" where
  "commit now fresh p r =
     (let s1 = (if loopDeps p r then loopCleanup r else r);
          s2 = (if collisionDeps fresh p r then collisionEffect r s1 else s1);
          s3 = (if loopDeps p r then loopEffect now r s2 else s2)
      in s3)"

text \<open>
  What follows a callback that left the state \<open>r\<close>, the previous render being \<open>p\<close>: the
  render of \<open>r\<close>, and the render of the state its effects leave.  Only the collision effect
  sets state, and only to leave \<open>Playing\<close>, so no third render has anything to do.
\<close>

definition settle :: "int \<Rightarrow> bool \<Rightarrow> App \<Rightarrow> App \<Rightarrow> App" where
  "settle now fresh p r = (let s = commit now fresh p r in commit now False r s)"

section \<open>Input handlers\<close>

definition startGame :: "App \<Rightarrow> App" where
  "startGame s =
     s\<lparr>gameState := Playing, score := 0, crabY := GROUND_Y - CRAB_HEIGHT,
       crabVelocity := 0, isSliding := False, isJumping := False,
       obstacles := [], particles := [], gameSpeed := 6, parallaxOffset := 0\<rparr>"

definition handleKeyDown :: "string \<Rightarrow> App \<Rightarrow> App" where
  "handleKeyDown code s =
     (if gameState s = Menu \<or> gameState s = Gameover then
        (if code = ''Space'' \<or> code = ''Enter'' then startGame s else s)
      else if gameState s = Playing then
        (let s1 = (if (code = ''Space'' \<or> code = ''ArrowUp'' \<or> code = ''KeyW'')
                      \<and> \<not> isJumping s \<and> \<not> isSliding s
                   then createParticles 100 (GROUND_Y - 10) 5 ''#00f5ff''
                          (s\<lparr>crabVelocity := JUMP_FORCE, isJumping := True\<rparr>)
                   else s)
         in if (code = ''ArrowDown'' \<or> code = ''KeyS'') \<and> \<not> isJumping s
            then s1\<lparr>isSliding := True\<rparr>
            else s1)
      else s)"

definition handleKeyUp :: "string \<Rightarrow> App \<Rightarrow> App" where
  "handleKeyUp code s =
     (if code = ''ArrowDown'' \<or> code = ''KeyS'' then s\<lparr>isSliding := False\<rparr> else s)"

text \<open>
  \<^verbatim>\<open>handleTouch\<close>; \<open>y\<close> is the touch's distance from the top of the play field and
  \<open>height\<close> is \<^verbatim>\<open>rect.height\<close>.
\<close>

definition handleTouch :: "real \<Rightarrow> real \<Rightarrow> App \<Rightarrow> App" where
  "handleTouch y height s =
     (if gameState s = Menu \<or> gameState s = Gameover then startGame s
      else if gameState s = Playing then
        (if y < height / 2 \<and> \<not> isJumping s \<and> \<not> isSliding s
         then createParticles 100 (GROUND_Y - 10) 5 ''#00f5ff''
                (s\<lparr>crabVelocity := JUMP_FORCE, isJumping := True\<rparr>)
         else if y \<ge> height / 2
         then s\<lparr>isSliding := True, slideTimeouts := slideTimeouts s + 1\<rparr>
         else s)
      else s)"

section \<open>Events\<close>

text \<open>
  What the browser can deliver: an animation frame, a key press or release with its
  \<^verbatim>\<open>code\<close>, a touch, and the expiry of a slide timer.  All state updates a callback
  queues are applied together and followed by one render and its effects, before the
  next callback runs.  A frame runs \<^verbatim>\<open>gameLoop\<close> only while a request is pending.
\<close>

datatype Event = Frame | KeyDown string | KeyUp string | Touch real real | SlideTimeout

fun step :: "int \<Rightarrow> Event \<Rightarrow> App \<Rightarrow> App" where
  "step now Frame s =
     (if gameLoopRef s then settle now True s (gameLoop now (s\<lparr>gameLoopRef := False\<rparr>)) else s)"
| "step now (KeyDown code) s = settle now False s (handleKeyDown code s)"
| "step now (KeyUp code) s = settle now False s (handleKeyUp code s)"
| "step now (Touch y height) s = settle now False s (handleTouch y height s)"
| "step now SlideTimeout s =
     (if slideTimeouts s > 0
      then settle now False s (s\<lparr>isSliding := False, slideTimeouts := slideTimeouts s - 1\<rparr>)
      else s)"

text \<open>A session: events with the clock reading at which each arrives, oldest first.\<close>

fun run :: "(int \<times> Event) list \<Rightarrow> App \<Rightarrow> App" where
  "run [] s = s"
| "run ((now, ev) # evs) s = run evs (step now ev s)"

text \<open>
  The clock readings of the events of a session that created an obstacle (the id counter
  moved), oldest first.
\<close>

fun spawnTimes :: "(int \<times> Event) list \<Rightarrow> App \<Rightarrow> int list" where
  "spawnTimes [] s = []"
| "spawnTimes ((now, ev) # evs) s =
     (if obstacleIdRef (step now ev s) \<noteq> obstacleIdRef s then [now] else []) @
     spawnTimes evs (step now ev s)"

section \<open>Properties of collision detection\<close>

lemma checkCollision_hits:
  "checkCollision obsl crabYPos sliding = (\<exists>obs \<in> set obsl. hits crabYPos sliding obs)"
  by (induction obsl) auto

text \<open>
  Claim C2.  \<open>checkCollision\<close> is a function of the obstacle list, the player's vertical
  position and the slide flag alone.  It is true exactly when some obstacle of the list
  fails all four separating-axis inequalities against the player rectangle (left edge 100,
  width 50, top and height given by the stance); an overlapping obstacle decides the
  result whatever follows it in the list, and the empty list gives false.  The rock at
  x = 100, y = 285 (45 wide, 35 high) overlaps the standing player at 280.
\<close>

theorem checkCollision_overlap_iff:
  "(checkCollision obsl crabYPos sliding \<longleftrightarrow>
      (\<exists>obs \<in> set obsl.
         \<not> obs_x obs + obs_width obs \<le> 100 \<and>
         \<not> 100 + CRAB_WIDTH \<le> obs_x obs \<and>
         \<not> obs_y obs + obs_height obs \<le> crabYOffset crabYPos sliding \<and>
         \<not> crabYOffset crabYPos sliding + crabH sliding \<le> obs_y obs))
   \<and> (hits crabYPos sliding obs \<longrightarrow> checkCollision (before @ obs # rest) crabYPos sliding)
   \<and> \<not> checkCollision [] crabYPos sliding
   \<and> checkCollision
        [\<lparr>obs_id = 0, obs_x = 100, obs_y = 285, obs_type = Rock,
          obs_width = 45, obs_height = 35\<rparr>] 280 False"
proof -
  have "hits crabYPos sliding ob \<longleftrightarrow>
         (\<not> obs_x ob + obs_width ob \<le> 100 \<and>
          \<not> 100 + CRAB_WIDTH \<le> obs_x ob \<and>
          \<not> obs_y ob + obs_height ob \<le> crabYOffset crabYPos sliding \<and>
          \<not> crabYOffset crabYPos sliding + crabH sliding \<le> obs_y ob)" for ob
    by (auto simp: hits_def crabX_def Let_def)
  then have iff: "checkCollision obsl crabYPos sliding \<longleftrightarrow>
      (\<exists>obs \<in> set obsl.
         \<not> obs_x obs + obs_width obs \<le> 100 \<and>
         \<not> 100 + CRAB_WIDTH \<le> obs_x obs \<and>
         \<not> obs_y obs + obs_height obs \<le> crabYOffset crabYPos sliding \<and>
         \<not> crabYOffset crabYPos sliding + crabH sliding \<le> obs_y obs)"
    by (simp add: checkCollision_hits)
  have first: "hits crabYPos sliding obs \<longrightarrow> checkCollision (before @ obs # rest) crabYPos sliding"
    by (auto simp: checkCollision_hits)
  have rock: "checkCollision
        [\<lparr>obs_id = 0, obs_x = 100, obs_y = 285, obs_type = Rock,
          obs_width = 45, obs_height = 35\<rparr>] 280 False"
    by (simp add: hits_def crabX_def crabYOffset_def crabH_def constants)
  from iff first rock show ?thesis by simp
qed

theorem checkCollision_overlap_iff_witness:
  "hits 280 False \<lparr>obs_id = 1, obs_x = 120, obs_y = 270, obs_type = Wave,
                    obs_width = 60, obs_height = 50\<rparr>
   \<and> checkCollision
       ([\<lparr>obs_id = 0, obs_x = 400, obs_y = 285, obs_type = Rock,
          obs_width = 45, obs_height = 35\<rparr>] @
        \<lparr>obs_id = 1, obs_x = 120, obs_y = 270, obs_type = Wave,
          obs_width = 60, obs_height = 50\<rparr> # []) 280 False"
proof -
  have h: "hits 280 False \<lparr>obs_id = 1, obs_x = 120, obs_y = 270, obs_type = Wave,
                            obs_width = 60, obs_height = 50\<rparr>"
    by (simp add: hits_def crabX_def crabYOffset_def crabH_def constants)
  with checkCollision_overlap_iff
         [of "[]" 280 False
             "\<lparr>obs_id = 1, obs_x = 120, obs_y = 270, obs_type = Wave,
               obs_width = 60, obs_height = 50\<rparr>"
             "[\<lparr>obs_id = 0, obs_x = 400, obs_y = 285, obs_type = Rock,
                obs_width = 45, obs_height = 35\<rparr>]" "[]"]
  show ?thesis by blast
qed

text \<open>
  Claim C3.  While sliding the hitbox is 20 high instead of 40 and spans 300 to 320, the
  ground line, whatever the player's vertical position; when every obstacle has its bottom
  edge at or above the top of that hitbox, \<open>checkCollision\<close> is false.
\<close>

theorem sliding_hitbox_clears_obstacles_above:
  "crabH True < crabH False
   \<and> crabYOffset crabYPos True + crabH True = GROUND_Y
   \<and> crabYOffset crabYPos False = crabYPos
   \<and> ((\<forall>obs \<in> set obsl. obs_y obs + obs_height obs \<le> crabYOffset crabYPos True)
        \<longrightarrow> \<not> checkCollision obsl crabYPos True)"
  by (auto simp: checkCollision_hits hits_def crabH_def crabYOffset_def constants Let_def)

theorem sliding_hitbox_clears_obstacles_above_witness:
  "(200::real) + 30 \<le> crabYOffset 280 True
   \<and> \<not> checkCollision [\<lparr>obs_id = 3, obs_x = 110, obs_y = 200, obs_type = Seagull,
                         obs_width = 50, obs_height = 30\<rparr>] 280 True"
proof -
  have h: "\<forall>obs \<in> set [\<lparr>obs_id = 3, obs_x = 110, obs_y = 200, obs_type = Seagull,
                        obs_width = 50, obs_height = 30\<rparr>].
             obs_y obs + obs_height obs \<le> crabYOffset 280 True"
    by (simp add: crabYOffset_def constants)
  with sliding_hitbox_clears_obstacles_above
         [of 280 "[\<lparr>obs_id = 3, obs_x = 110, obs_y = 200, obs_type = Seagull,
                    obs_width = 50, obs_height = 30\<rparr>]"]
  show ?thesis by simp
qed

text \<open>
  Claim C10.  The four comparisons are strict: when every obstacle of the list shares an
  edge with the player hitbox (its right edge on the player's left edge, its left edge on
  the player's right edge, its bottom on the player's top, or its top on the player's
  bottom), \<open>checkCollision\<close> is false.
\<close>

theorem touching_rectangles_do_not_collide:
  "(\<forall>obs \<in> set obsl.
       obs_x obs + obs_width obs = crabX
     \<or> obs_x obs = crabX + CRAB_WIDTH
     \<or> obs_y obs + obs_height obs = crabYOffset crabYPos sliding
     \<or> obs_y obs = crabYOffset crabYPos sliding + crabH sliding)
   \<Longrightarrow> \<not> checkCollision obsl crabYPos sliding"
  by (auto simp: checkCollision_hits hits_def Let_def)

theorem touching_rectangles_do_not_collide_witness:
  "(150::real) = crabX + CRAB_WIDTH
   \<and> (235::real) + 45 = crabYOffset 280 False
   \<and> \<not> checkCollision [\<lparr>obs_id = 0, obs_x = 150, obs_y = 285, obs_type = Rock,
                         obs_width = 45, obs_height = 35\<rparr>,
                        \<lparr>obs_id = 1, obs_x = 110, obs_y = 235, obs_type = Jellyfish,
                         obs_width = 35, obs_height = 45\<rparr>] 280 False"
proof -
  have h: "\<forall>obs \<in> set [\<lparr>obs_id = 0, obs_x = 150, obs_y = 285, obs_type = Rock,
                        obs_width = 45, obs_height = 35\<rparr>,
                       \<lparr>obs_id = 1, obs_x = 110, obs_y = 235, obs_type = Jellyfish,
                        obs_width = 35, obs_height = 45\<rparr>].
       obs_x obs + obs_width obs = crabX
     \<or> obs_x obs = crabX + CRAB_WIDTH
     \<or> obs_y obs + obs_height obs = crabYOffset 280 False
     \<or> obs_y obs = crabYOffset 280 False + crabH False"
    by (simp add: crabX_def crabYOffset_def crabH_def constants)
  from touching_rectangles_do_not_collide [OF h] show ?thesis
    by (simp add: crabX_def crabYOffset_def constants)
qed

section \<open>What each part of a frame changes\<close>

lemma newParticles_state:
  "snd (newParticles n x y color s) =
     s\<lparr>particleIdRef := particleIdRef s + n,
       randomSource := (\<lambda>i. randomSource s (i + 3 * n))\<rparr>"
proof (induction n arbitrary: s)
  case 0
  show ?case by simp
next
  case (Suc n)
  show ?case
    using Suc.IH [of "s\<lparr>particleIdRef := particleIdRef s + 1,
                       randomSource := (\<lambda>i. randomSource s (Suc (Suc (Suc i))))\<rparr>"]
    by (simp add: Math_random_def Let_def split_beta eval_nat_numeral add_ac)
qed

lemma createParticles_eq:
  "createParticles x y count color s =
     s\<lparr>particleIdRef := particleIdRef s + count,
       randomSource := (\<lambda>i. randomSource s (i + 3 * count)),
       particles := particles s @ fst (newParticles count x y color s)\<rparr>"
  using newParticles_state [of count x y color s]
  by (cases "newParticles count x y color s") (simp add: createParticles_def)

lemma spawnObstacle_eq:
  "\<exists>k y ty w h. spawnObstacle s =
     s\<lparr>randomSource := (\<lambda>i. randomSource s (i + k)),
       obstacleIdRef := obstacleIdRef s + 1,
       obstacles := obstacles s @
         [\<lparr>obs_id = obstacleIdRef s, obs_x = GAME_WIDTH + 50, obs_y = y,
           obs_type = ty, obs_width = w, obs_height = h\<rparr>]\<rparr>"
proof (cases "pickType (randomSource s 0)")
  case Rock
  then show ?thesis
    by (intro exI [of _ 1] exI) (simp add: spawnObstacle_def Math_random_def Let_def)
next
  case Wave
  then show ?thesis
    by (intro exI [of _ 1] exI) (simp add: spawnObstacle_def Math_random_def Let_def)
next
  case Seagull
  then show ?thesis
    by (intro exI [of _ 2] exI) (simp add: spawnObstacle_def Math_random_def Let_def)
next
  case Jellyfish
  then show ?thesis
    by (intro exI [of _ 2] exI) (simp add: spawnObstacle_def Math_random_def Let_def)
qed


lemma spawnObstacle_frame:
  "gameState (spawnObstacle s) = gameState s"
  "score (spawnObstacle s) = score s"
  "highScore (spawnObstacle s) = highScore s"
  "crabY (spawnObstacle s) = crabY s"
  "crabVelocity (spawnObstacle s) = crabVelocity s"
  "isSliding (spawnObstacle s) = isSliding s"
  "isJumping (spawnObstacle s) = isJumping s"
  "particles (spawnObstacle s) = particles s"
  "gameSpeed (spawnObstacle s) = gameSpeed s"
  "parallaxOffset (spawnObstacle s) = parallaxOffset s"
  "gameLoopRef (spawnObstacle s) = gameLoopRef s"
  "particleIdRef (spawnObstacle s) = particleIdRef s"
  "lastObstacleTimeRef (spawnObstacle s) = lastObstacleTimeRef s"
  "frameCountRef (spawnObstacle s) = frameCountRef s"
  "localStorage (spawnObstacle s) = localStorage s"
  "slideTimeouts (spawnObstacle s) = slideTimeouts s"
  "obstacleIdRef (spawnObstacle s) = obstacleIdRef s + 1"
  using spawnObstacle_eq [of s] by auto

lemma spawnObstacle_obstacles:
  "\<exists>obs. obstacles (spawnObstacle s) = obstacles s @ [obs] \<and>
     obs_id obs = obstacleIdRef s \<and> obs_x obs = GAME_WIDTH + 50"
  using spawnObstacle_eq [of s] by auto


lemma updateCrabPhysics_eq:
  "updateCrabPhysics velocity jumping s =
     s\<lparr>crabY :=
         (if jumping \<or> crabY s < GROUND_Y - CRAB_HEIGHT
          then (if crabY s + (velocity + GRAVITY) \<ge> GROUND_Y - CRAB_HEIGHT
                then GROUND_Y - CRAB_HEIGHT else crabY s + (velocity + GRAVITY))
          else crabY s),
       crabVelocity :=
         (if jumping \<or> crabY s < GROUND_Y - CRAB_HEIGHT
          then (if crabY s + (velocity + GRAVITY) \<ge> GROUND_Y - CRAB_HEIGHT
                then 0 else velocity + GRAVITY)
          else crabVelocity s),
       isJumping :=
         (if jumping \<or> crabY s < GROUND_Y - CRAB_HEIGHT
          then (if crabY s + (velocity + GRAVITY) \<ge> GROUND_Y - CRAB_HEIGHT
                then False else isJumping s)
          else isJumping s)\<rparr>"
  by (simp add: updateCrabPhysics_def Let_def)

lemma spawnObstacles_eq:
  "spawnObstacles now sc s =
     s\<lparr>randomSource :=
         (if now - lastObstacleTimeRef s > spawnInterval sc
          then randomSource (spawnObstacle s) else randomSource s),
       obstacleIdRef :=
         (if now - lastObstacleTimeRef s > spawnInterval sc
          then obstacleIdRef s + 1 else obstacleIdRef s),
       obstacles :=
         (if now - lastObstacleTimeRef s > spawnInterval sc
          then obstacles (spawnObstacle s) else obstacles s),
       lastObstacleTimeRef :=
         (if now - lastObstacleTimeRef s > spawnInterval sc
          then now else lastObstacleTimeRef s)\<rparr>"
  using spawnObstacle_eq [of s] by (auto simp: spawnObstacles_def)

lemma increaseDifficulty_eq:
  "increaseDifficulty s =
     s\<lparr>gameSpeed :=
         (if frameCountRef s mod 300 = 0 then min (gameSpeed s + 0.5) 15 else gameSpeed s)\<rparr>"
  by (simp add: increaseDifficulty_def)

lemma updateScore_eq:
  "updateScore s =
     s\<lparr>score := (if frameCountRef s mod 10 = 0 then score s + 1 else score s)\<rparr>"
  by (simp add: updateScore_def)

lemma sandParticles_eq:
  "sandParticles s =
     s\<lparr>particleIdRef :=
         (if frameCountRef s mod 5 = 0 then particleIdRef s + 1 else particleIdRef s),
       randomSource :=
         (if frameCountRef s mod 5 = 0
          then (\<lambda>i. randomSource s (i + 3)) else randomSource s),
       particles :=
         (if frameCountRef s mod 5 = 0
          then particles s @ fst (newParticles 1 110 (GROUND_Y - 5) ''#ffcc80'' s)
          else particles s)\<rparr>"
  by (simp add: sandParticles_def createParticles_eq)


lemma updateParallax_frame [simp]:
  "gameState (updateParallax speed s) = gameState s"
  "score (updateParallax speed s) = score s"
  "highScore (updateParallax speed s) = highScore s"
  "crabY (updateParallax speed s) = crabY s"
  "crabVelocity (updateParallax speed s) = crabVelocity s"
  "isSliding (updateParallax speed s) = isSliding s"
  "isJumping (updateParallax speed s) = isJumping s"
  "obstacles (updateParallax speed s) = obstacles s"
  "particles (updateParallax speed s) = particles s"
  "gameSpeed (updateParallax speed s) = gameSpeed s"
  "gameLoopRef (updateParallax speed s) = gameLoopRef s"
  "obstacleIdRef (updateParallax speed s) = obstacleIdRef s"
  "particleIdRef (updateParallax speed s) = particleIdRef s"
  "lastObstacleTimeRef (updateParallax speed s) = lastObstacleTimeRef s"
  "frameCountRef (updateParallax speed s) = frameCountRef s"
  "localStorage (updateParallax speed s) = localStorage s"
  "slideTimeouts (updateParallax speed s) = slideTimeouts s"
  "randomSource (updateParallax speed s) = randomSource s"
  by (simp_all add: updateParallax_def)

lemma updateCrabPhysics_frame [simp]:
  "gameState (updateCrabPhysics velocity jumping s) = gameState s"
  "score (updateCrabPhysics velocity jumping s) = score s"
  "highScore (updateCrabPhysics velocity jumping s) = highScore s"
  "isSliding (updateCrabPhysics velocity jumping s) = isSliding s"
  "obstacles (updateCrabPhysics velocity jumping s) = obstacles s"
  "particles (updateCrabPhysics velocity jumping s) = particles s"
  "gameSpeed (updateCrabPhysics velocity jumping s) = gameSpeed s"
  "parallaxOffset (updateCrabPhysics velocity jumping s) = parallaxOffset s"
  "gameLoopRef (updateCrabPhysics velocity jumping s) = gameLoopRef s"
  "obstacleIdRef (updateCrabPhysics velocity jumping s) = obstacleIdRef s"
  "particleIdRef (updateCrabPhysics velocity jumping s) = particleIdRef s"
  "lastObstacleTimeRef (updateCrabPhysics velocity jumping s) = lastObstacleTimeRef s"
  "frameCountRef (updateCrabPhysics velocity jumping s) = frameCountRef s"
  "localStorage (updateCrabPhysics velocity jumping s) = localStorage s"
  "slideTimeouts (updateCrabPhysics velocity jumping s) = slideTimeouts s"
  "randomSource (updateCrabPhysics velocity jumping s) = randomSource s"
  by (simp_all add: updateCrabPhysics_eq)

lemma updateObstacles_frame [simp]:
  "gameState (updateObstacles speed s) = gameState s"
  "score (updateObstacles speed s) = score s"
  "highScore (updateObstacles speed s) = highScore s"
  "crabY (updateObstacles speed s) = crabY s"
  "crabVelocity (updateObstacles speed s) = crabVelocity s"
  "isSliding (updateObstacles speed s) = isSliding s"
  "isJumping (updateObstacles speed s) = isJumping s"
  "particles (updateObstacles speed s) = particles s"
  "gameSpeed (updateObstacles speed s) = gameSpeed s"
  "parallaxOffset (updateObstacles speed s) = parallaxOffset s"
  "gameLoopRef (updateObstacles speed s) = gameLoopRef s"
  "obstacleIdRef (updateObstacles speed s) = obstacleIdRef s"
  "particleIdRef (updateObstacles speed s) = particleIdRef s"
  "lastObstacleTimeRef (updateObstacles speed s) = lastObstacleTimeRef s"
  "frameCountRef (updateObstacles speed s) = frameCountRef s"
  "localStorage (updateObstacles speed s) = localStorage s"
  "slideTimeouts (updateObstacles speed s) = slideTimeouts s"
  "randomSource (updateObstacles speed s) = randomSource s"
  by (simp_all add: updateObstacles_def)

lemma updateParticles_frame [simp]:
  "gameState (updateParticles s) = gameState s"
  "score (updateParticles s) = score s"
  "highScore (updateParticles s) = highScore s"
  "crabY (updateParticles s) = crabY s"
  "crabVelocity (updateParticles s) = crabVelocity s"
  "isSliding (updateParticles s) = isSliding s"
  "isJumping (updateParticles s) = isJumping s"
  "obstacles (updateParticles s) = obstacles s"
  "gameSpeed (updateParticles s) = gameSpeed s"
  "parallaxOffset (updateParticles s) = parallaxOffset s"
  "gameLoopRef (updateParticles s) = gameLoopRef s"
  "obstacleIdRef (updateParticles s) = obstacleIdRef s"
  "particleIdRef (updateParticles s) = particleIdRef s"
  "lastObstacleTimeRef (updateParticles s) = lastObstacleTimeRef s"
  "frameCountRef (updateParticles s) = frameCountRef s"
  "localStorage (updateParticles s) = localStorage s"
  "slideTimeouts (updateParticles s) = slideTimeouts s"
  "randomSource (updateParticles s) = randomSource s"
  by (simp_all add: updateParticles_def)

lemma spawnObstacles_frame [simp]:
  "gameState (spawnObstacles now sc s) = gameState s"
  "score (spawnObstacles now sc s) = score s"
  "highScore (spawnObstacles now sc s) = highScore s"
  "crabY (spawnObstacles now sc s) = crabY s"
  "crabVelocity (spawnObstacles now sc s) = crabVelocity s"
  "isSliding (spawnObstacles now sc s) = isSliding s"
  "isJumping (spawnObstacles now sc s) = isJumping s"
  "particles (spawnObstacles now sc s) = particles s"
  "gameSpeed (spawnObstacles now sc s) = gameSpeed s"
  "parallaxOffset (spawnObstacles now sc s) = parallaxOffset s"
  "gameLoopRef (spawnObstacles now sc s) = gameLoopRef s"
  "particleIdRef (spawnObstacles now sc s) = particleIdRef s"
  "frameCountRef (spawnObstacles now sc s) = frameCountRef s"
  "localStorage (spawnObstacles now sc s) = localStorage s"
  "slideTimeouts (spawnObstacles now sc s) = slideTimeouts s"
  by (simp_all add: spawnObstacles_eq)

lemma increaseDifficulty_frame [simp]:
  "gameState (increaseDifficulty s) = gameState s"
  "score (increaseDifficulty s) = score s"
  "highScore (increaseDifficulty s) = highScore s"
  "crabY (increaseDifficulty s) = crabY s"
  "crabVelocity (increaseDifficulty s) = crabVelocity s"
  "isSliding (increaseDifficulty s) = isSliding s"
  "isJumping (increaseDifficulty s) = isJumping s"
  "obstacles (increaseDifficulty s) = obstacles s"
  "particles (increaseDifficulty s) = particles s"
  "parallaxOffset (increaseDifficulty s) = parallaxOffset s"
  "gameLoopRef (increaseDifficulty s) = gameLoopRef s"
  "obstacleIdRef (increaseDifficulty s) = obstacleIdRef s"
  "particleIdRef (increaseDifficulty s) = particleIdRef s"
  "lastObstacleTimeRef (increaseDifficulty s) = lastObstacleTimeRef s"
  "frameCountRef (increaseDifficulty s) = frameCountRef s"
  "localStorage (increaseDifficulty s) = localStorage s"
  "slideTimeouts (increaseDifficulty s) = slideTimeouts s"
  "randomSource (increaseDifficulty s) = randomSource s"
  by (simp_all add: increaseDifficulty_eq)

lemma updateScore_frame [simp]:
  "gameState (updateScore s) = gameState s"
  "highScore (updateScore s) = highScore s"
  "crabY (updateScore s) = crabY s"
  "crabVelocity (updateScore s) = crabVelocity s"
  "isSliding (updateScore s) = isSliding s"
  "isJumping (updateScore s) = isJumping s"
  "obstacles (updateScore s) = obstacles s"
  "particles (updateScore s) = particles s"
  "gameSpeed (updateScore s) = gameSpeed s"
  "parallaxOffset (updateScore s) = parallaxOffset s"
  "gameLoopRef (updateScore s) = gameLoopRef s"
  "obstacleIdRef (updateScore s) = obstacleIdRef s"
  "particleIdRef (updateScore s) = particleIdRef s"
  "lastObstacleTimeRef (updateScore s) = lastObstacleTimeRef s"
  "frameCountRef (updateScore s) = frameCountRef s"
  "localStorage (updateScore s) = localStorage s"
  "slideTimeouts (updateScore s) = slideTimeouts s"
  "randomSource (updateScore s) = randomSource s"
  by (simp_all add: updateScore_eq)

lemma sandParticles_frame [simp]:
  "gameState (sandParticles s) = gameState s"
  "score (sandParticles s) = score s"
  "highScore (sandParticles s) = highScore s"
  "crabY (sandParticles s) = crabY s"
  "crabVelocity (sandParticles s) = crabVelocity s"
  "isSliding (sandParticles s) = isSliding s"
  "isJumping (sandParticles s) = isJumping s"
  "obstacles (sandParticles s) = obstacles s"
  "gameSpeed (sandParticles s) = gameSpeed s"
  "parallaxOffset (sandParticles s) = parallaxOffset s"
  "gameLoopRef (sandParticles s) = gameLoopRef s"
  "obstacleIdRef (sandParticles s) = obstacleIdRef s"
  "lastObstacleTimeRef (sandParticles s) = lastObstacleTimeRef s"
  "frameCountRef (sandParticles s) = frameCountRef s"
  "localStorage (sandParticles s) = localStorage s"
  "slideTimeouts (sandParticles s) = slideTimeouts s"
  by (simp_all add: sandParticles_eq)

lemma createParticles_frame [simp]:
  "gameState (createParticles x y count color s) = gameState s"
  "score (createParticles x y count color s) = score s"
  "highScore (createParticles x y count color s) = highScore s"
  "crabY (createParticles x y count color s) = crabY s"
  "crabVelocity (createParticles x y count color s) = crabVelocity s"
  "isSliding (createParticles x y count color s) = isSliding s"
  "isJumping (createParticles x y count color s) = isJumping s"
  "obstacles (createParticles x y count color s) = obstacles s"
  "gameSpeed (createParticles x y count color s) = gameSpeed s"
  "parallaxOffset (createParticles x y count color s) = parallaxOffset s"
  "gameLoopRef (createParticles x y count color s) = gameLoopRef s"
  "obstacleIdRef (createParticles x y count color s) = obstacleIdRef s"
  "lastObstacleTimeRef (createParticles x y count color s) = lastObstacleTimeRef s"
  "frameCountRef (createParticles x y count color s) = frameCountRef s"
  "localStorage (createParticles x y count color s) = localStorage s"
  "slideTimeouts (createParticles x y count color s) = slideTimeouts s"
  by (simp_all add: createParticles_eq)

lemma gameLoop_frame:
  "gameState (gameLoop now s) = gameState s"
  "highScore (gameLoop now s) = highScore s"
  "isSliding (gameLoop now s) = isSliding s"
  "gameLoopRef (gameLoop now s) = True"
  "frameCountRef (gameLoop now s) = frameCountRef s + 1"
  "localStorage (gameLoop now s) = localStorage s"
  "slideTimeouts (gameLoop now s) = slideTimeouts s"
  by (simp_all add: gameLoop_def Let_def)

lemma gameLoop_gameSpeed:
  "gameSpeed (gameLoop now s) =
     (if (frameCountRef s + 1) mod 300 = 0 then min (gameSpeed s + 0.5) 15 else gameSpeed s)"
  by (simp add: gameLoop_def Let_def increaseDifficulty_eq)

lemma gameLoop_score:
  "score (gameLoop now s) =
     (if (frameCountRef s + 1) mod 10 = 0 then score s + 1 else score s)"
  by (simp add: gameLoop_def Let_def updateScore_eq)

lemma gameLoop_crab:
  "crabY (gameLoop now s) =
     (if isJumping s \<or> crabY s < GROUND_Y - CRAB_HEIGHT
      then (if crabY s + (crabVelocity s + GRAVITY) \<ge> GROUND_Y - CRAB_HEIGHT
            then GROUND_Y - CRAB_HEIGHT else crabY s + (crabVelocity s + GRAVITY))
      else crabY s)"
  "crabVelocity (gameLoop now s) =
     (if isJumping s \<or> crabY s < GROUND_Y - CRAB_HEIGHT
      then (if crabY s + (crabVelocity s + GRAVITY) \<ge> GROUND_Y - CRAB_HEIGHT
            then 0 else crabVelocity s + GRAVITY)
      else crabVelocity s)"
  "isJumping (gameLoop now s) =
     (if isJumping s \<or> crabY s < GROUND_Y - CRAB_HEIGHT
      then (if crabY s + (crabVelocity s + GRAVITY) \<ge> GROUND_Y - CRAB_HEIGHT
            then False else isJumping s)
      else isJumping s)"
  by (simp_all add: gameLoop_def Let_def updateCrabPhysics_eq)


lemma collisionEffect_frame [simp]:
  "score (collisionEffect r s) = score s"
  "crabY (collisionEffect r s) = crabY s"
  "crabVelocity (collisionEffect r s) = crabVelocity s"
  "isSliding (collisionEffect r s) = isSliding s"
  "isJumping (collisionEffect r s) = isJumping s"
  "obstacles (collisionEffect r s) = obstacles s"
  "gameSpeed (collisionEffect r s) = gameSpeed s"
  "parallaxOffset (collisionEffect r s) = parallaxOffset s"
  "gameLoopRef (collisionEffect r s) = gameLoopRef s"
  "obstacleIdRef (collisionEffect r s) = obstacleIdRef s"
  "lastObstacleTimeRef (collisionEffect r s) = lastObstacleTimeRef s"
  "frameCountRef (collisionEffect r s) = frameCountRef s"
  "slideTimeouts (collisionEffect r s) = slideTimeouts s"
  by (simp_all add: collisionEffect_def Let_def)

lemma collisionEffect_gameState:
  "gameState (collisionEffect r s) =
     (if gameState r = Playing \<and> checkCollision (obstacles r) (crabY r) (isSliding r)
      then Gameover else gameState s)"
  by (simp add: collisionEffect_def Let_def)

lemma collisionEffect_highScore:
  "highScore (collisionEffect r s) =
     (if gameState r = Playing \<and> checkCollision (obstacles r) (crabY r) (isSliding r)
         \<and> score r > highScore r
      then score r else highScore s)"
  by (simp add: collisionEffect_def Let_def)

lemma collisionEffect_miss:
  "\<not> (gameState r = Playing \<and> checkCollision (obstacles r) (crabY r) (isSliding r))
   \<Longrightarrow> collisionEffect r s = s"
  by (auto simp: collisionEffect_def)

lemma commit_frame [simp]:
  "score (commit now fresh p r) = score r"
  "crabY (commit now fresh p r) = crabY r"
  "crabVelocity (commit now fresh p r) = crabVelocity r"
  "isSliding (commit now fresh p r) = isSliding r"
  "isJumping (commit now fresh p r) = isJumping r"
  "obstacles (commit now fresh p r) = obstacles r"
  "gameSpeed (commit now fresh p r) = gameSpeed r"
  "parallaxOffset (commit now fresh p r) = parallaxOffset r"
  "obstacleIdRef (commit now fresh p r) = obstacleIdRef r"
  "slideTimeouts (commit now fresh p r) = slideTimeouts r"
  by (simp_all add: commit_def Let_def loopCleanup_def loopEffect_def)

lemma commit_gameState:
  "gameState (commit now fresh p r) =
     (if collisionDeps fresh p r \<and> gameState r = Playing
         \<and> checkCollision (obstacles r) (crabY r) (isSliding r)
      then Gameover else gameState r)"
  by (simp add: commit_def Let_def loopCleanup_def loopEffect_def collisionEffect_gameState)

lemma commit_highScore:
  "highScore (commit now fresh p r) =
     (if collisionDeps fresh p r \<and> gameState r = Playing
         \<and> checkCollision (obstacles r) (crabY r) (isSliding r) \<and> score r > highScore r
      then score r else highScore r)"
  by (simp add: commit_def Let_def loopCleanup_def loopEffect_def collisionEffect_highScore)

lemma commit_gameLoopRef:
  "gameLoopRef (commit now fresh p r) =
     (if loopDeps p r then gameState r = Playing else gameLoopRef r)"
  by (simp add: commit_def Let_def loopCleanup_def loopEffect_def)

lemma commit_frameCountRef:
  "frameCountRef (commit now fresh p r) =
     (if loopDeps p r \<and> gameState r = Playing then 0 else frameCountRef r)"
  by (simp add: commit_def Let_def loopCleanup_def loopEffect_def)

lemma commit_lastObstacleTimeRef:
  "lastObstacleTimeRef (commit now fresh p r) =
     (if loopDeps p r \<and> gameState r = Playing then now else lastObstacleTimeRef r)"
  by (simp add: commit_def Let_def loopCleanup_def loopEffect_def)

lemma commit_particles_miss:
  "\<not> (gameState r = Playing \<and> checkCollision (obstacles r) (crabY r) (isSliding r))
   \<Longrightarrow> particles (commit now fresh p r) = particles r"
  by (simp add: commit_def Let_def loopCleanup_def loopEffect_def collisionEffect_miss)

lemmas commit_fields =
  commit_gameState commit_highScore commit_gameLoopRef commit_frameCountRef
  commit_lastObstacleTimeRef

lemma settle_frame [simp]:
  "score (settle now fresh p r) = score r"
  "crabY (settle now fresh p r) = crabY r"
  "crabVelocity (settle now fresh p r) = crabVelocity r"
  "isSliding (settle now fresh p r) = isSliding r"
  "isJumping (settle now fresh p r) = isJumping r"
  "obstacles (settle now fresh p r) = obstacles r"
  "gameSpeed (settle now fresh p r) = gameSpeed r"
  "parallaxOffset (settle now fresh p r) = parallaxOffset r"
  "obstacleIdRef (settle now fresh p r) = obstacleIdRef r"
  "slideTimeouts (settle now fresh p r) = slideTimeouts r"
  by (simp_all add: settle_def Let_def)

lemma settle_gameState:
  "gameState (settle now fresh p r) =
     (if collisionDeps fresh p r \<and> gameState r = Playing
         \<and> checkCollision (obstacles r) (crabY r) (isSliding r)
      then Gameover else gameState r)"
  by (simp add: settle_def Let_def commit_fields collisionDeps_def)

lemma settle_gameLoopRef:
  "gameLoopRef (settle now fresh p r) =
     (if collisionDeps fresh p r \<and> gameState r = Playing
         \<and> checkCollision (obstacles r) (crabY r) (isSliding r)
      then False
      else if loopDeps p r then gameState r = Playing else gameLoopRef r)"
  by (simp add: settle_def Let_def commit_fields loopDeps_def)

lemma settle_frameCountRef:
  "frameCountRef (settle now fresh p r) =
     (if loopDeps p r \<and> gameState r = Playing then 0 else frameCountRef r)"
  by (simp add: settle_def Let_def commit_fields loopDeps_def)

lemma settle_lastObstacleTimeRef:
  "lastObstacleTimeRef (settle now fresh p r) =
     (if loopDeps p r \<and> gameState r = Playing then now else lastObstacleTimeRef r)"
  by (simp add: settle_def Let_def commit_fields loopDeps_def)

lemma settle_particles_miss:
  "\<not> (gameState r = Playing \<and> checkCollision (obstacles r) (crabY r) (isSliding r))
   \<Longrightarrow> particles (settle now fresh p r) = particles r"
  by (simp add: settle_def Let_def commit_fields commit_particles_miss)

lemmas settle_fields =
  settle_gameState settle_gameLoopRef settle_frameCountRef settle_lastObstacleTimeRef


lemma spawnObstacles_obstacles:
  "\<exists>spawned. obstacles (spawnObstacles now sc s) = obstacles s @ spawned \<and>
     (\<forall>obs \<in> set spawned. obs_id obs = obstacleIdRef s \<and> obs_x obs = GAME_WIDTH + 50) \<and>
     length spawned = (if now - lastObstacleTimeRef s > spawnInterval sc then 1 else 0) \<and>
     obstacleIdRef (spawnObstacles now sc s) = obstacleIdRef s + length spawned"
proof (cases "now - lastObstacleTimeRef s > spawnInterval sc")
  case True
  obtain obs where "obstacles (spawnObstacle s) = obstacles s @ [obs]"
    "obs_id obs = obstacleIdRef s" "obs_x obs = GAME_WIDTH + 50"
    using spawnObstacle_obstacles [of s] by blast
  with True show ?thesis
    by (intro exI [of _ "[obs]"]) (simp add: spawnObstacles_eq)
next
  case False
  then show ?thesis
    by (intro exI [of _ "[]"]) (simp add: spawnObstacles_eq)
qed

lemma gameLoop_obstacles:
  "\<exists>spawned. obstacles (gameLoop now s) = advanceObstacles (gameSpeed s) (obstacles s) @ spawned \<and>
     (\<forall>obs \<in> set spawned. obs_id obs = obstacleIdRef s \<and> obs_x obs = GAME_WIDTH + 50) \<and>
     length spawned = (if now - lastObstacleTimeRef s > spawnInterval (score s) then 1 else 0) \<and>
     obstacleIdRef (gameLoop now s) = obstacleIdRef s + length spawned"
  using spawnObstacles_obstacles
          [of now "score s"
              "updateParticles (updateObstacles (gameSpeed s)
                 (updateCrabPhysics (crabVelocity s) (isJumping s)
                    (updateParallax (gameSpeed s) (s\<lparr>frameCountRef := frameCountRef s + 1\<rparr>))))"]
  by (simp add: gameLoop_def Let_def updateObstacles_def)

lemma gameLoop_lastObstacleTimeRef:
  "lastObstacleTimeRef (gameLoop now s) =
     (if now - lastObstacleTimeRef s > spawnInterval (score s) then now else lastObstacleTimeRef s)"
  by (simp add: gameLoop_def Let_def spawnObstacles_eq)

lemma startGame_fields:
  "gameState (startGame s) = Playing" "score (startGame s) = 0"
  "crabY (startGame s) = GROUND_Y - CRAB_HEIGHT" "crabVelocity (startGame s) = 0"
  "isSliding (startGame s) = False" "isJumping (startGame s) = False"
  "obstacles (startGame s) = []" "particles (startGame s) = []"
  "gameSpeed (startGame s) = 6" "parallaxOffset (startGame s) = 0"
  "highScore (startGame s) = highScore s" "gameLoopRef (startGame s) = gameLoopRef s"
  "obstacleIdRef (startGame s) = obstacleIdRef s"
  "frameCountRef (startGame s) = frameCountRef s"
  "lastObstacleTimeRef (startGame s) = lastObstacleTimeRef s"
  "slideTimeouts (startGame s) = slideTimeouts s"
  by (simp_all add: startGame_def)

lemma handleKeyDown_frame [simp]:
  "highScore (handleKeyDown code s) = highScore s"
  "gameLoopRef (handleKeyDown code s) = gameLoopRef s"
  "obstacleIdRef (handleKeyDown code s) = obstacleIdRef s"
  "frameCountRef (handleKeyDown code s) = frameCountRef s"
  "lastObstacleTimeRef (handleKeyDown code s) = lastObstacleTimeRef s"
  "slideTimeouts (handleKeyDown code s) = slideTimeouts s"
  by (simp_all add: handleKeyDown_def startGame_fields Let_def)

lemma handleKeyDown_playing:
  "gameState s = Playing \<Longrightarrow> gameState (handleKeyDown code s) = Playing"
  "gameState s = Playing \<Longrightarrow> gameSpeed (handleKeyDown code s) = gameSpeed s"
  "gameState s = Playing \<Longrightarrow> obstacles (handleKeyDown code s) = obstacles s"
  "gameState s = Playing \<Longrightarrow> score (handleKeyDown code s) = score s"
  "gameState s = Playing \<Longrightarrow> crabY (handleKeyDown code s) = crabY s"
  by (simp_all add: handleKeyDown_def Let_def)

lemma handleKeyDown_idle:
  "gameState s \<noteq> Playing \<Longrightarrow>
     handleKeyDown code s = (if code = ''Space'' \<or> code = ''Enter'' then startGame s else s)"
  by (cases "gameState s") (simp_all add: handleKeyDown_def)

lemma handleKeyUp_frame [simp]:
  "gameState (handleKeyUp code s) = gameState s"
  "score (handleKeyUp code s) = score s"
  "highScore (handleKeyUp code s) = highScore s"
  "crabY (handleKeyUp code s) = crabY s"
  "crabVelocity (handleKeyUp code s) = crabVelocity s"
  "isJumping (handleKeyUp code s) = isJumping s"
  "obstacles (handleKeyUp code s) = obstacles s"
  "gameSpeed (handleKeyUp code s) = gameSpeed s"
  "gameLoopRef (handleKeyUp code s) = gameLoopRef s"
  "obstacleIdRef (handleKeyUp code s) = obstacleIdRef s"
  "frameCountRef (handleKeyUp code s) = frameCountRef s"
  by (simp_all add: handleKeyUp_def)

lemma handleTouch_frame [simp]:
  "highScore (handleTouch y height s) = highScore s"
  "gameLoopRef (handleTouch y height s) = gameLoopRef s"
  "obstacleIdRef (handleTouch y height s) = obstacleIdRef s"
  "frameCountRef (handleTouch y height s) = frameCountRef s"
  "lastObstacleTimeRef (handleTouch y height s) = lastObstacleTimeRef s"
  by (simp_all add: handleTouch_def startGame_fields)

lemma handleTouch_playing:
  "gameState s = Playing \<Longrightarrow> gameState (handleTouch y height s) = Playing"
  "gameState s = Playing \<Longrightarrow> gameSpeed (handleTouch y height s) = gameSpeed s"
  "gameState s = Playing \<Longrightarrow> obstacles (handleTouch y height s) = obstacles s"
  "gameState s = Playing \<Longrightarrow> score (handleTouch y height s) = score s"
  "gameState s = Playing \<Longrightarrow> crabY (handleTouch y height s) = crabY s"
  by (simp_all add: handleTouch_def)

lemma handleTouch_idle:
  "gameState s \<noteq> Playing \<Longrightarrow> handleTouch y height s = startGame s"
  by (cases "gameState s") (simp_all add: handleTouch_def)



lemma loopDeps_score: "score p \<noteq> score r \<Longrightarrow> loopDeps p r"
  by (simp add: loopDeps_def)

lemma loopDeps_gameState: "gameState p \<noteq> gameState r \<Longrightarrow> loopDeps p r"
  by (simp add: loopDeps_def)

lemma settle_invariant:
  assumes "gameSpeed r = 6"
    and "loopDeps p r \<or> (gameLoopRef r \<longleftrightarrow> gameState r = Playing)"
    and "gameState r = Playing \<Longrightarrow> loopDeps p r \<or> frameCountRef r < 10"
  shows "gameSpeed (settle now fresh p r) = 6 \<and>
         (gameLoopRef (settle now fresh p r) \<longleftrightarrow> gameState (settle now fresh p r) = Playing) \<and>
         (gameState (settle now fresh p r) = Playing \<longrightarrow> frameCountRef (settle now fresh p r) < 10)"
proof (intro conjI impI)
  show "gameSpeed (settle now fresh p r) = 6"
    using assms(1) by simp
next
  show "gameLoopRef (settle now fresh p r) \<longleftrightarrow> gameState (settle now fresh p r) = Playing"
    using assms(2) by (cases "gameState r = Playing") (auto simp: settle_fields)
next
  assume "gameState (settle now fresh p r) = Playing"
  then have "gameState r = Playing"
    by (simp add: settle_gameState split: if_splits)
  with assms(3) show "frameCountRef (settle now fresh p r) < 10"
    by (auto simp: settle_frameCountRef)
qed

lemma step_invariant:
  assumes "gameSpeed s = 6" "gameLoopRef s \<longleftrightarrow> gameState s = Playing"
    "gameState s = Playing \<longrightarrow> frameCountRef s < 10"
  shows "gameSpeed (step now ev s) = 6 \<and>
        (gameLoopRef (step now ev s) \<longleftrightarrow> gameState (step now ev s) = Playing) \<and>
        (gameState (step now ev s) = Playing \<longrightarrow> frameCountRef (step now ev s) < 10)"
proof (cases ev)
  case Frame
  show ?thesis
  proof (cases "gameLoopRef s")
    case False
    with assms Frame show ?thesis by simp
  next
    case True
    with assms have pl: "gameState s = Playing" and fc: "frameCountRef s < 10" by simp_all
    let ?r = "gameLoop now (s\<lparr>gameLoopRef := False\<rparr>)"
    from fc have m: "(frameCountRef s + 1) mod 300 \<noteq> 0" by simp
    from fc have t: "(frameCountRef s + 1) mod 10 = 0 \<or> frameCountRef s + 1 < 10" by presburger
    have a: "gameSpeed ?r = 6" using m assms(1) by (simp add: gameLoop_gameSpeed)
    have b: "gameState ?r = Playing" "gameLoopRef ?r" using pl by (simp_all add: gameLoop_frame)
    have c: "loopDeps s ?r \<or> frameCountRef ?r < 10"
      using t by (auto simp: gameLoop_frame gameLoop_score intro: loopDeps_score)
    from settle_invariant [of ?r s now True] a b c True Frame show ?thesis by simp
  qed
next
  case (KeyDown code)
  let ?r = "handleKeyDown code s"
  have "gameSpeed ?r = 6 \<and> (loopDeps s ?r \<or> (gameLoopRef ?r \<longleftrightarrow> gameState ?r = Playing))
      \<and> (gameState ?r = Playing \<longrightarrow> loopDeps s ?r \<or> frameCountRef ?r < 10)"
  proof (cases "gameState s = Playing")
    case True
    with assms show ?thesis by (simp add: handleKeyDown_playing)
  next
    case False
    with assms show ?thesis
      by (auto simp: handleKeyDown_idle startGame_fields intro: loopDeps_gameState)
  qed
  with settle_invariant [of ?r s now False] KeyDown show ?thesis by simp
next
  case (KeyUp code)
  let ?r = "handleKeyUp code s"
  have "gameSpeed ?r = 6 \<and> (loopDeps s ?r \<or> (gameLoopRef ?r \<longleftrightarrow> gameState ?r = Playing))
      \<and> (gameState ?r = Playing \<longrightarrow> loopDeps s ?r \<or> frameCountRef ?r < 10)"
    using assms by auto
  with settle_invariant [of ?r s now False] KeyUp show ?thesis by simp
next
  case (Touch y height)
  let ?r = "handleTouch y height s"
  have "gameSpeed ?r = 6 \<and> (loopDeps s ?r \<or> (gameLoopRef ?r \<longleftrightarrow> gameState ?r = Playing))
      \<and> (gameState ?r = Playing \<longrightarrow> loopDeps s ?r \<or> frameCountRef ?r < 10)"
  proof (cases "gameState s = Playing")
    case True
    with assms show ?thesis by (simp add: handleTouch_playing)
  next
    case False
    with assms show ?thesis
      by (auto simp: handleTouch_idle startGame_fields intro: loopDeps_gameState)
  qed
  with settle_invariant [of ?r s now False] Touch show ?thesis by simp
next
  case SlideTimeout
  let ?r = "s\<lparr>isSliding := False, slideTimeouts := slideTimeouts s - 1\<rparr>"
  have "gameSpeed ?r = 6 \<and> (loopDeps s ?r \<or> (gameLoopRef ?r \<longleftrightarrow> gameState ?r = Playing))
      \<and> (gameState ?r = Playing \<longrightarrow> loopDeps s ?r \<or> frameCountRef ?r < 10)"
    using assms by auto
  with settle_invariant [of ?r s now False] SlideTimeout assms show ?thesis by simp
qed

lemma run_invariant:
  assumes "gameSpeed s = 6" "gameLoopRef s \<longleftrightarrow> gameState s = Playing"
    "gameState s = Playing \<longrightarrow> frameCountRef s < 10"
  shows "gameSpeed (run evs s) = 6 \<and>
         (gameLoopRef (run evs s) \<longleftrightarrow> gameState (run evs s) = Playing) \<and>
         (gameState (run evs s) = Playing \<longrightarrow> frameCountRef (run evs s) < 10)"
  using assms
proof (induction evs arbitrary: s)
  case Nil
  then show ?case by simp
next
  case (Cons e evs)
  obtain now ev where e: "e = (now, ev)" by (cases e)
  from step_invariant [OF Cons.prems, of now ev] Cons.IH [of "step now ev s"] e
  show ?case by simp
qed

lemma initial_invariant:
  "gameSpeed (initial saved rnd) = 6"
  "gameLoopRef (initial saved rnd) \<longleftrightarrow> gameState (initial saved rnd) = Playing"
  "gameState (initial saved rnd) = Playing \<longrightarrow> frameCountRef (initial saved rnd) < 10"
  by (simp_all add: initial_def)

lemma reachable_invariant:
  "gameSpeed (run evs (initial saved rnd)) = 6 \<and>
   (gameLoopRef (run evs (initial saved rnd)) \<longleftrightarrow> gameState (run evs (initial saved rnd)) = Playing) \<and>
   (gameState (run evs (initial saved rnd)) = Playing \<longrightarrow>
      frameCountRef (run evs (initial saved rnd)) < 10)"
  by (rule run_invariant [OF initial_invariant])

section \<open>Starting a run\<close>

lemma settle_start:
  assumes "gameState s \<noteq> Playing"
  shows "gameState (settle now False s (startGame s)) = Playing"
    "frameCountRef (settle now False s (startGame s)) = 0"
    "gameLoopRef (settle now False s (startGame s))"
    "particles (settle now False s (startGame s)) = []"
    "lastObstacleTimeRef (settle now False s (startGame s)) = now"
  using assms
  by (simp_all add: settle_fields settle_particles_miss startGame_fields loopDeps_def)

lemma started_state:
  "gameState (step 0 (KeyDown ''Space'') (initial None (\<lambda>i. 0))) = Playing"
  "isJumping (step 0 (KeyDown ''Space'') (initial None (\<lambda>i. 0))) = False"
  "isSliding (step 0 (KeyDown ''Space'') (initial None (\<lambda>i. 0))) = False"
  "crabY (step 0 (KeyDown ''Space'') (initial None (\<lambda>i. 0))) = 280"
  "crabVelocity (step 0 (KeyDown ''Space'') (initial None (\<lambda>i. 0))) = 0"
  "gameLoopRef (step 0 (KeyDown ''Space'') (initial None (\<lambda>i. 0)))"
  "score (step 0 (KeyDown ''Space'') (initial None (\<lambda>i. 0))) = 0"
  "obstacles (step 0 (KeyDown ''Space'') (initial None (\<lambda>i. 0))) = []"
  "gameSpeed (step 0 (KeyDown ''Space'') (initial None (\<lambda>i. 0))) = 6"
  "frameCountRef (step 0 (KeyDown ''Space'') (initial None (\<lambda>i. 0))) = 0"
  "lastObstacleTimeRef (step 0 (KeyDown ''Space'') (initial None (\<lambda>i. 0))) = 0"
  "obstacleIdRef (step 0 (KeyDown ''Space'') (initial None (\<lambda>i. 0))) = 0"
proof -
  have np: "gameState (initial None (\<lambda>i. 0)) \<noteq> Playing" by (simp add: initial_def)
  then have eq: "step 0 (KeyDown ''Space'') (initial None (\<lambda>i. 0)) =
      settle 0 False (initial None (\<lambda>i. 0)) (startGame (initial None (\<lambda>i. 0)))"
    by (simp add: handleKeyDown_idle)
  show "gameState (step 0 (KeyDown ''Space'') (initial None (\<lambda>i. 0))) = Playing"
    "isJumping (step 0 (KeyDown ''Space'') (initial None (\<lambda>i. 0))) = False"
    "isSliding (step 0 (KeyDown ''Space'') (initial None (\<lambda>i. 0))) = False"
    "crabY (step 0 (KeyDown ''Space'') (initial None (\<lambda>i. 0))) = 280"
    "crabVelocity (step 0 (KeyDown ''Space'') (initial None (\<lambda>i. 0))) = 0"
    "gameLoopRef (step 0 (KeyDown ''Space'') (initial None (\<lambda>i. 0)))"
    "score (step 0 (KeyDown ''Space'') (initial None (\<lambda>i. 0))) = 0"
    "obstacles (step 0 (KeyDown ''Space'') (initial None (\<lambda>i. 0))) = []"
    "gameSpeed (step 0 (KeyDown ''Space'') (initial None (\<lambda>i. 0))) = 6"
    "frameCountRef (step 0 (KeyDown ''Space'') (initial None (\<lambda>i. 0))) = 0"
    "lastObstacleTimeRef (step 0 (KeyDown ''Space'') (initial None (\<lambda>i. 0))) = 0"
    "obstacleIdRef (step 0 (KeyDown ''Space'') (initial None (\<lambda>i. 0))) = 0"
    unfolding eq using settle_start [OF np, of 0]
    by (simp_all add: startGame_fields constants) (simp_all add: initial_def)
qed

text \<open>
  Claim C8.  A start request (the Space or Enter key, or a touch) that arrives in the
  menu or after a game over leaves the game playing with score 0, the player on the
  ground (position 280), standing, with velocity 0, no obstacles, no particles, scroll
  speed 6, frame counter 0 and parallax offset 0.
\<close>

theorem start_resets_run:
  "gameState s = Menu \<or> gameState s = Gameover \<Longrightarrow>
   ev = KeyDown ''Space'' \<or> ev = KeyDown ''Enter'' \<or> ev = Touch y height \<Longrightarrow>
   gameState (step now ev s) = Playing \<and> score (step now ev s) = 0 \<and>
   crabY (step now ev s) = GROUND_Y - CRAB_HEIGHT \<and> crabVelocity (step now ev s) = 0 \<and>
   stance (step now ev s) = Standing \<and>
   obstacles (step now ev s) = [] \<and> particles (step now ev s) = [] \<and>
   gameSpeed (step now ev s) = 6 \<and> frameCountRef (step now ev s) = 0 \<and>
   parallaxOffset (step now ev s) = 0"
proof -
  assume idle: "gameState s = Menu \<or> gameState s = Gameover"
    and ev: "ev = KeyDown ''Space'' \<or> ev = KeyDown ''Enter'' \<or> ev = Touch y height"
  from idle have np: "gameState s \<noteq> Playing" by auto
  from ev np have "step now ev s = settle now False s (startGame s)"
    by (auto simp: handleKeyDown_idle handleTouch_idle)
  with settle_start [OF np, of now] show ?thesis
    by (simp add: startGame_fields stance_def)
qed

theorem start_resets_run_witness:
  "gameState (initial None (\<lambda>i. 0)) = Menu \<and>
   gameState (step 5 (KeyDown ''Space'') (initial None (\<lambda>i. 0))) = Playing \<and>
   score (step 5 (KeyDown ''Space'') (initial None (\<lambda>i. 0))) = 0 \<and>
   obstacles (step 5 (KeyDown ''Space'') (initial None (\<lambda>i. 0))) = [] \<and>
   frameCountRef (step 5 (KeyDown ''Space'') (initial None (\<lambda>i. 0))) = 0"
proof -
  have m: "gameState (initial None (\<lambda>i. 0)) = Menu \<or> gameState (initial None (\<lambda>i. 0)) = Gameover"
    by (simp add: initial_def)
  have e: "KeyDown ''Space'' = KeyDown ''Space'' \<or> KeyDown ''Space'' = KeyDown ''Enter''
           \<or> KeyDown ''Space'' = Touch 0 0"
    by simp
  from start_resets_run [OF m e, of 5] show ?thesis
    by (simp add: initial_def)
qed

section \<open>Player physics\<close>

lemma handleKeyDown_jump:
  assumes "gameState s = Playing" "\<not> isJumping s" "\<not> isSliding s"
  shows "crabVelocity (handleKeyDown ''Space'' s) = JUMP_FORCE"
    "isJumping (handleKeyDown ''Space'' s)"
    "isSliding (handleKeyDown ''Space'' s) = isSliding s"
    "crabY (handleKeyDown ''Space'' s) = crabY s"
    "gameState (handleKeyDown ''Space'' s) = Playing"
    "score (handleKeyDown ''Space'' s) = score s"
  using assms by (simp_all add: handleKeyDown_def Let_def)

lemma step_Frame_crab:
  assumes "gameLoopRef s"
  shows "crabY (step now Frame s) = crabY (gameLoop now (s\<lparr>gameLoopRef := False\<rparr>))"
    "crabVelocity (step now Frame s) = crabVelocity (gameLoop now (s\<lparr>gameLoopRef := False\<rparr>))"
    "isJumping (step now Frame s) = isJumping (gameLoop now (s\<lparr>gameLoopRef := False\<rparr>))"
    "isSliding (step now Frame s) = isSliding s"
  using assms by (simp_all add: gameLoop_frame)

text \<open>
  With ground position 280, gravity 0.8 and impulse -15: a jump from the ground at
  velocity 0 followed by one frame leaves velocity -14.2 and position 265.8.  In every
  state that is airborne (the jump flag is set or the player is above 280) a frame adds
  gravity to the velocity and the new velocity to the position; when the new position is
  280 or more it is set to 280, the velocity to 0 and the jump flag is cleared.  The slide
  flag is not touched, so the stance is then Standing only if that flag is not set.
\<close>

lemma jump_integration:
  "(gameState s = Playing \<and> stance s = Standing \<and>
    crabY s = GROUND_Y - CRAB_HEIGHT \<and> crabVelocity s = 0 \<longrightarrow>
      crabVelocity (step tf Frame (step tk (KeyDown ''Space'') s)) = -14.2 \<and>
      crabY (step tf Frame (step tk (KeyDown ''Space'') s)) = 265.8)
   \<and> (gameLoopRef s \<and> (isJumping s \<or> crabY s < GROUND_Y - CRAB_HEIGHT) \<longrightarrow>
        (if crabY s + (crabVelocity s + GRAVITY) \<ge> GROUND_Y - CRAB_HEIGHT
         then crabY (step now Frame s) = GROUND_Y - CRAB_HEIGHT \<and>
              crabVelocity (step now Frame s) = 0 \<and>
              \<not> isJumping (step now Frame s) \<and>
              (\<not> isSliding s \<longrightarrow> stance (step now Frame s) = Standing)
         else crabY (step now Frame s) = crabY s + (crabVelocity s + GRAVITY) \<and>
              crabVelocity (step now Frame s) = crabVelocity s + GRAVITY))
   \<and> GROUND_Y - CRAB_HEIGHT = 280 \<and> GRAVITY = 0.8 \<and> JUMP_FORCE = -15"
proof (intro conjI impI)
  assume a: "gameState s = Playing \<and> stance s = Standing \<and>
    crabY s = GROUND_Y - CRAB_HEIGHT \<and> crabVelocity s = 0"
  then have st: "\<not> isJumping s" "\<not> isSliding s"
    by (auto simp: stance_def split: if_splits)
  let ?k = "step tk (KeyDown ''Space'') s"
  from a st have k: "gameLoopRef ?k" "crabVelocity ?k = JUMP_FORCE" "isJumping ?k"
    "crabY ?k = GROUND_Y - CRAB_HEIGHT"
    by (simp_all add: settle_fields handleKeyDown_jump loopDeps_def collisionDeps_def)
  from k show "crabVelocity (step tf Frame ?k) = -14.2"
    by (simp add: step_Frame_crab gameLoop_crab constants del: step.simps)
  from k show "crabY (step tf Frame ?k) = 265.8"
    by (simp add: step_Frame_crab gameLoop_crab constants del: step.simps)
next
  assume a: "gameLoopRef s \<and> (isJumping s \<or> crabY s < GROUND_Y - CRAB_HEIGHT)"
  then show "if crabY s + (crabVelocity s + GRAVITY) \<ge> GROUND_Y - CRAB_HEIGHT
         then crabY (step now Frame s) = GROUND_Y - CRAB_HEIGHT \<and>
              crabVelocity (step now Frame s) = 0 \<and>
              \<not> isJumping (step now Frame s) \<and>
              (\<not> isSliding s \<longrightarrow> stance (step now Frame s) = Standing)
         else crabY (step now Frame s) = crabY s + (crabVelocity s + GRAVITY) \<and>
              crabVelocity (step now Frame s) = crabVelocity s + GRAVITY"
    by (simp add: step_Frame_crab gameLoop_crab stance_def del: step.simps)
qed (simp_all add: constants)

lemma jump_integration_example:
  "stance (step 0 (KeyDown ''Space'') (initial None (\<lambda>i. 0))) = Standing
   \<and> crabVelocity (step 32 Frame (step 16 (KeyDown ''Space'')
        (step 0 (KeyDown ''Space'') (initial None (\<lambda>i. 0))))) = -14.2
   \<and> crabY (step 32 Frame (step 16 (KeyDown ''Space'')
        (step 0 (KeyDown ''Space'') (initial None (\<lambda>i. 0))))) = 265.8
   \<and> crabY (step 48 Frame
        ((step 0 (KeyDown ''Space'') (initial None (\<lambda>i. 0)))
           \<lparr>crabY := 275, crabVelocity := 14, isJumping := True\<rparr>)) = 280
   \<and> crabVelocity (step 48 Frame
        ((step 0 (KeyDown ''Space'') (initial None (\<lambda>i. 0)))
           \<lparr>crabY := 275, crabVelocity := 14, isJumping := True\<rparr>)) = 0
   \<and> stance (step 48 Frame
        ((step 0 (KeyDown ''Space'') (initial None (\<lambda>i. 0)))
           \<lparr>crabY := 275, crabVelocity := 14, isJumping := True\<rparr>)) = Standing"
proof -
  let ?s = "step 0 (KeyDown ''Space'') (initial None (\<lambda>i. 0))"
  let ?a = "?s\<lparr>crabY := 275, crabVelocity := 14, isJumping := True\<rparr>"
  have st: "stance ?s = Standing"
    by (simp add: stance_def started_state del: step.simps)
  have h1: "gameState ?s = Playing \<and> stance ?s = Standing \<and>
    crabY ?s = GROUND_Y - CRAB_HEIGHT \<and> crabVelocity ?s = 0"
    using st by (simp add: started_state constants del: step.simps)
  have h2: "gameLoopRef ?a \<and> (isJumping ?a \<or> crabY ?a < GROUND_Y - CRAB_HEIGHT)"
    by (simp add: started_state del: step.simps)
  have h3: "crabY ?a + (crabVelocity ?a + GRAVITY) \<ge> GROUND_Y - CRAB_HEIGHT" "\<not> isSliding ?a"
    by (simp_all add: started_state constants del: step.simps)
  from jump_integration [where s = ?s and tk = 16 and tf = 32] h1
  have "crabVelocity (step 32 Frame (step 16 (KeyDown ''Space'') ?s)) = -14.2 \<and>
        crabY (step 32 Frame (step 16 (KeyDown ''Space'') ?s)) = 265.8"
    by blast
  moreover from jump_integration [where s = ?a and now = 48] h2 h3
  have "crabY (step 48 Frame ?a) = 280 \<and> crabVelocity (step 48 Frame ?a) = 0 \<and>
        stance (step 48 Frame ?a) = Standing"
    by (simp add: constants del: step.simps)
  ultimately show ?thesis using st by blast
qed

section \<open>Difficulty\<close>

text \<open>The ramp itself never lowers the speed and never passes 15.\<close>

lemma increaseDifficulty_bounds:
  assumes "gameSpeed s \<le> 15"
  shows "gameSpeed s \<le> gameSpeed (increaseDifficulty s)"
    and "gameSpeed (increaseDifficulty s) \<le> 15"
    and "frameCountRef s mod 300 = 0 \<Longrightarrow> gameSpeed s \<le> 14.5
           \<Longrightarrow> gameSpeed (increaseDifficulty s) = gameSpeed s + 0.5"
  using assms by (simp_all add: increaseDifficulty_eq)

text \<open>The frame counter goes back to 0 whenever the score changes.\<close>

lemma frame_counter_reset:
  assumes "gameLoopRef s" "gameState s = Playing" "(frameCountRef s + 1) mod 10 = 0"
  shows "frameCountRef (step now Frame s) = 0"
  using assms
  by (simp add: settle_frameCountRef gameLoop_frame gameLoop_score loopDeps_def)

text \<open>
  Claim C6.  The loop effect depends on \<^verbatim>\<open>gameLoop\<close>, which is a new function whenever
  the score changes, and the effect sets the frame counter to 0.  The score changes when
  the counter reaches 10, so the counter never reaches 300 and the scroll speed stays 6 in
  every session, in particular after a start and 300 frames.
\<close>

theorem scroll_speed_stays_at_base:
  "gameSpeed (run evs (initial saved rnd)) = 6
   \<and> gameSpeed (run ((0, KeyDown ''Space'') # map (\<lambda>k. (16 * int k, Frame)) [1..<301])
                   (initial None (\<lambda>i. 0))) = 6"
  using reachable_invariant by blast

section \<open>Spawning\<close>

lemma spawnInterval_facts:
  "a \<le> b \<Longrightarrow> spawnInterval b \<le> spawnInterval a"
  "700 \<le> spawnInterval sc" "0 \<le> spawnInterval sc" "spawnInterval 100 = 1300"
  by (simp_all add: spawnInterval_def)

lemma step_Frame_obstacles:
  assumes "gameLoopRef s"
  shows "\<exists>spawned. obstacles (step now Frame s) = advanceObstacles (gameSpeed s) (obstacles s) @ spawned \<and>
     (\<forall>obs \<in> set spawned. obs_id obs = obstacleIdRef s \<and> obs_x obs = GAME_WIDTH + 50) \<and>
     length spawned = (if now - lastObstacleTimeRef s > spawnInterval (score s) then 1 else 0) \<and>
     obstacleIdRef (step now Frame s) = obstacleIdRef s + length spawned"
  using assms gameLoop_obstacles [of now "s\<lparr>gameLoopRef := False\<rparr>"] by simp

lemma step_other_obstacleIdRef:
  "ev \<noteq> Frame \<or> \<not> gameLoopRef s \<Longrightarrow> obstacleIdRef (step now ev s) = obstacleIdRef s"
  by (cases ev) auto

section \<open>Advancing and pruning obstacles\<close>

lemma advanceObstacles_eq:
  "advanceObstacles speed prev =
     map (\<lambda>obs. obs\<lparr>obs_x := obs_x obs - speed\<rparr>)
       (filter (\<lambda>obs. obs_x obs - speed > -100) prev)"
  by (simp add: advanceObstacles_def filter_map comp_def)

lemma advanceObstacles_ids:
  "map obs_id (advanceObstacles speed prev) =
     map obs_id (filter (\<lambda>obs. obs_x obs - speed > -100) prev)"
  by (simp add: advanceObstacles_eq comp_def)

lemma advanceObstacles_pruned:
  assumes "distinct (map obs_id prev)" "obs \<in> set prev" "obs_x obs - speed \<le> -100"
  shows "obs_id obs \<notin> obs_id ` set (advanceObstacles speed prev)"
proof
  assume "obs_id obs \<in> obs_id ` set (advanceObstacles speed prev)"
  then have "obs_id obs \<in> set (map obs_id (advanceObstacles speed prev))" by simp
  then have "obs_id obs \<in> obs_id ` {o' \<in> set prev. obs_x o' - speed > -100}"
    by (simp add: advanceObstacles_ids)
  then obtain o' where o': "o' \<in> set prev" "obs_x o' - speed > -100" "obs_id o' = obs_id obs"
    by auto
  from assms(1) o'(1) assms(2) o'(3) have "o' = obs"
    by (meson distinct_map inj_onD)
  with o'(2) assms(3) show False by simp
qed

lemma advanceObstacles_subset:
  "obs_id ` set (advanceObstacles speed prev) \<subseteq> obs_id ` set prev"
proof -
  have "set (map obs_id (advanceObstacles speed prev)) \<subseteq> set (map obs_id prev)"
    unfolding advanceObstacles_ids by auto
  then show ?thesis by simp
qed

lemma advanceObstacles_distinct:
  "distinct (map obs_id prev) \<Longrightarrow> distinct (map obs_id (advanceObstacles speed prev))"
  unfolding advanceObstacles_ids by (rule distinct_map_filter)


lemma step_obstacles_cases:
  "(obstacles (step now ev s) = obstacles s \<and> obstacleIdRef (step now ev s) = obstacleIdRef s)
   \<or> (obstacles (step now ev s) = [] \<and> obstacleIdRef (step now ev s) = obstacleIdRef s)
   \<or> (gameLoopRef s \<and> ev = Frame)"
proof (cases ev)
  case Frame
  then show ?thesis by simp
next
  case (KeyDown code)
  then show ?thesis
    by (cases "gameState s = Playing")
       (simp_all add: handleKeyDown_playing handleKeyDown_idle startGame_fields)
next
  case (KeyUp code)
  then show ?thesis by simp
next
  case (Touch y height)
  then show ?thesis
    by (cases "gameState s = Playing")
       (simp_all add: handleTouch_playing handleTouch_idle startGame_fields)
next
  case SlideTimeout
  then show ?thesis by simp
qed

lemma step_ids:
  assumes d: "distinct (map obs_id (obstacles s))"
    and b: "\<forall>obs \<in> set (obstacles s). obs_id obs < obstacleIdRef s"
  shows "distinct (map obs_id (obstacles (step now ev s)))"
    and "\<forall>obs \<in> set (obstacles (step now ev s)). obs_id obs < obstacleIdRef (step now ev s)"
    and "obstacleIdRef s \<le> obstacleIdRef (step now ev s)"
    and "i < obstacleIdRef s \<Longrightarrow> i \<notin> obs_id ` set (obstacles s)
           \<Longrightarrow> i \<notin> obs_id ` set (obstacles (step now ev s))"
proof -
  let ?t = "step now ev s"
  have "distinct (map obs_id (obstacles ?t)) \<and>
        (\<forall>obs \<in> set (obstacles ?t). obs_id obs < obstacleIdRef ?t) \<and>
        obstacleIdRef s \<le> obstacleIdRef ?t \<and>
        (i < obstacleIdRef s \<longrightarrow> i \<notin> obs_id ` set (obstacles s)
           \<longrightarrow> i \<notin> obs_id ` set (obstacles ?t))"
  proof (cases "gameLoopRef s \<and> ev = Frame")
    case False
    with step_obstacles_cases [of now ev s] d b show ?thesis by auto
  next
    case True
    then have ev: "ev = Frame" and g: "gameLoopRef s" by simp_all
    from step_Frame_obstacles [OF g, of now] obtain spawned where
      o: "obstacles (step now Frame s) = advanceObstacles (gameSpeed s) (obstacles s) @ spawned"
      and sp: "\<forall>obs \<in> set spawned. obs_id obs = obstacleIdRef s"
      and len: "length spawned \<le> 1"
      and c: "obstacleIdRef (step now Frame s) = obstacleIdRef s + length spawned"
      by (auto split: if_splits)
    let ?adv = "advanceObstacles (gameSpeed s) (obstacles s)"
    have sub: "obs_id ` set ?adv \<subseteq> obs_id ` set (obstacles s)"
      by (rule advanceObstacles_subset)
    have dadv: "distinct (map obs_id ?adv)"
      using d by (rule advanceObstacles_distinct)
    have below: "\<forall>x \<in> obs_id ` set ?adv. x < obstacleIdRef s"
      using sub b by auto
    have dsp: "distinct (map obs_id spawned)"
      using len by (cases spawned) auto
    have disj: "obs_id ` set ?adv \<inter> obs_id ` set spawned = {}"
      using below sp by fastforce
    have 1: "distinct (map obs_id (obstacles (step now Frame s)))"
      unfolding o using dadv dsp disj by simp
    have 2: "\<forall>obs \<in> set (obstacles (step now Frame s)).
               obs_id obs < obstacleIdRef (step now Frame s)"
    proof
      fix obs assume "obs \<in> set (obstacles (step now Frame s))"
      then consider "obs \<in> set ?adv" | "obs \<in> set spawned" unfolding o by auto
      then show "obs_id obs < obstacleIdRef (step now Frame s)"
      proof cases
        case 1
        with below have "obs_id obs < obstacleIdRef s" by blast
        then show ?thesis unfolding c by simp
      next
        case 2
        with sp have "obs_id obs = obstacleIdRef s" by blast
        moreover from 2 have "length spawned > 0" by (cases spawned) auto
        ultimately show ?thesis unfolding c by simp
      qed
    qed
    have 3: "obstacleIdRef s \<le> obstacleIdRef (step now Frame s)"
      unfolding c by simp
    have 4: "i < obstacleIdRef s \<longrightarrow> i \<notin> obs_id ` set (obstacles s)
           \<longrightarrow> i \<notin> obs_id ` set (obstacles (step now Frame s))"
    proof (intro impI)
      assume i: "i < obstacleIdRef s" and n: "i \<notin> obs_id ` set (obstacles s)"
      from n sub have "i \<notin> obs_id ` set ?adv" by blast
      moreover from i sp have "i \<notin> obs_id ` set spawned" by auto
      ultimately show "i \<notin> obs_id ` set (obstacles (step now Frame s))"
        unfolding o by auto
    qed
    from 1 2 3 4 ev show ?thesis by blast
  qed
  then show "distinct (map obs_id (obstacles (step now ev s)))"
    and "\<forall>obs \<in> set (obstacles (step now ev s)). obs_id obs < obstacleIdRef (step now ev s)"
    and "obstacleIdRef s \<le> obstacleIdRef (step now ev s)"
    and "i < obstacleIdRef s \<Longrightarrow> i \<notin> obs_id ` set (obstacles s)
           \<Longrightarrow> i \<notin> obs_id ` set (obstacles (step now ev s))"
    by blast+
qed

lemma run_ids:
  assumes "distinct (map obs_id (obstacles s))"
    and "\<forall>obs \<in> set (obstacles s). obs_id obs < obstacleIdRef s"
  shows "distinct (map obs_id (obstacles (run evs s))) \<and>
         (\<forall>obs \<in> set (obstacles (run evs s)). obs_id obs < obstacleIdRef (run evs s)) \<and>
         (i < obstacleIdRef s \<longrightarrow> i \<notin> obs_id ` set (obstacles s)
            \<longrightarrow> i \<notin> obs_id ` set (obstacles (run evs s)))"
  using assms
proof (induction evs arbitrary: s)
  case Nil
  then show ?case by simp
next
  case (Cons e evs)
  obtain now ev where e: "e = (now, ev)" by (cases e)
  note st = step_ids [OF Cons.prems, where now = now and ev = ev]
  from Cons.IH [OF st(1) st(2)] st(3) st(4) e show ?case
    by (auto simp del: step.simps)
qed

lemma reachable_ids:
  "distinct (map obs_id (obstacles (run evs (initial saved rnd)))) \<and>
   (\<forall>obs \<in> set (obstacles (run evs (initial saved rnd))).
      obs_id obs < obstacleIdRef (run evs (initial saved rnd)))"
  using run_ids [where s = "initial saved rnd" and evs = evs and i = 0] by (simp add: initial_def)

text \<open>
  Claim C7.  One advance step keeps, in order, exactly the obstacles whose position less
  the scroll speed is above -100, each with its position lowered by the scroll speed and
  its other fields as they were; a frame stores the advanced list, followed by the
  obstacle it spawns, if any.  Where ids are distinct and below the id counter, as they
  are in every reachable state, an obstacle dropped by a frame is in no later obstacle
  list.  The scroll speed is positive.
\<close>

theorem obstacles_advance_and_prune:
  "advanceObstacles speed prev =
     map (\<lambda>obs. obs\<lparr>obs_x := obs_x obs - speed\<rparr>)
       (filter (\<lambda>obs. obs_x obs - speed > -100) prev)
   \<and> (gameLoopRef s \<longrightarrow>
        (\<exists>spawned. obstacles (step now Frame s) =
                      advanceObstacles (gameSpeed s) (obstacles s) @ spawned \<and>
                    (\<forall>obs \<in> set spawned. obs_id obs = obstacleIdRef s \<and>
                                          obs_x obs = GAME_WIDTH + 50)))
   \<and> (distinct (map obs_id (obstacles s)) \<and>
       (\<forall>obs \<in> set (obstacles s). obs_id obs < obstacleIdRef s) \<and>
       gameLoopRef s \<and> gone \<in> set (obstacles s) \<and> obs_x gone - gameSpeed s \<le> -100 \<longrightarrow>
         obs_id gone \<notin> obs_id ` set (obstacles (run later (step now Frame s))))
   \<and> distinct (map obs_id (obstacles (run evs (initial saved rnd))))
   \<and> (\<forall>obs \<in> set (obstacles (run evs (initial saved rnd))).
         obs_id obs < obstacleIdRef (run evs (initial saved rnd)))
   \<and> 0 < gameSpeed (run evs (initial saved rnd))"
proof (intro conjI impI)
  show "advanceObstacles speed prev =
     map (\<lambda>obs. obs\<lparr>obs_x := obs_x obs - speed\<rparr>)
       (filter (\<lambda>obs. obs_x obs - speed > -100) prev)"
    by (rule advanceObstacles_eq)
next
  assume "gameLoopRef s"
  from step_Frame_obstacles [OF this, of now]
  show "\<exists>spawned. obstacles (step now Frame s) =
                      advanceObstacles (gameSpeed s) (obstacles s) @ spawned \<and>
                    (\<forall>obs \<in> set spawned. obs_id obs = obstacleIdRef s \<and>
                                          obs_x obs = GAME_WIDTH + 50)"
    by blast
next
  assume a: "distinct (map obs_id (obstacles s)) \<and>
       (\<forall>obs \<in> set (obstacles s). obs_id obs < obstacleIdRef s) \<and>
       gameLoopRef s \<and> gone \<in> set (obstacles s) \<and> obs_x gone - gameSpeed s \<le> -100"
  then have d: "distinct (map obs_id (obstacles s))"
    and b: "\<forall>obs \<in> set (obstacles s). obs_id obs < obstacleIdRef s"
    and g: "gameLoopRef s" and m: "gone \<in> set (obstacles s)"
    and x: "obs_x gone - gameSpeed s \<le> -100"
    by blast+
  let ?t = "step now Frame s"
  from step_Frame_obstacles [OF g, of now] obtain spawned where
    o: "obstacles ?t = advanceObstacles (gameSpeed s) (obstacles s) @ spawned"
    and sp: "\<forall>obs \<in> set spawned. obs_id obs = obstacleIdRef s"
    by blast
  from b m have lt: "obs_id gone < obstacleIdRef s" by blast
  have "obs_id gone \<notin> obs_id ` set (advanceObstacles (gameSpeed s) (obstacles s))"
    using d m x by (rule advanceObstacles_pruned)
  moreover from lt sp have "obs_id gone \<notin> obs_id ` set spawned" by auto
  ultimately have out: "obs_id gone \<notin> obs_id ` set (obstacles ?t)"
    unfolding o by auto
  note st = step_ids [OF d b, where now = now and ev = Frame]
  from lt st(3) have lt': "obs_id gone < obstacleIdRef ?t" by simp
  from run_ids [OF st(1) st(2), where evs = later and i = "obs_id gone"] lt' out
  show "obs_id gone \<notin> obs_id ` set (obstacles (run later ?t))"
    by blast
next
  show "distinct (map obs_id (obstacles (run evs (initial saved rnd))))"
    using reachable_ids by blast
  show "\<forall>obs \<in> set (obstacles (run evs (initial saved rnd))).
         obs_id obs < obstacleIdRef (run evs (initial saved rnd))"
    using reachable_ids by blast
  show "0 < gameSpeed (run evs (initial saved rnd))"
    using reachable_invariant [of evs saved rnd] by simp
qed

theorem obstacles_advance_and_prune_witness:
  "gameLoopRef ((step 0 (KeyDown ''Space'') (initial None (\<lambda>i. 0)))
      \<lparr>obstacles := [\<lparr>obs_id = 0, obs_x = -95, obs_y = 285, obs_type = Rock,
                       obs_width = 45, obs_height = 35\<rparr>], obstacleIdRef := 1\<rparr>)
   \<and> (-95::real) - 6 \<le> -100
   \<and> 0 \<notin> obs_id ` set (obstacles (run [(32, Frame)] (step 16 Frame
        ((step 0 (KeyDown ''Space'') (initial None (\<lambda>i. 0)))
           \<lparr>obstacles := [\<lparr>obs_id = 0, obs_x = -95, obs_y = 285, obs_type = Rock,
                            obs_width = 45, obs_height = 35\<rparr>], obstacleIdRef := 1\<rparr>))))"
proof -
  let ?rock = "\<lparr>obs_id = 0, obs_x = -95, obs_y = 285, obs_type = Rock,
                 obs_width = 45, obs_height = 35\<rparr>"
  let ?s = "(step 0 (KeyDown ''Space'') (initial None (\<lambda>i. 0)))
              \<lparr>obstacles := [?rock], obstacleIdRef := 1\<rparr>"
  have g: "gameLoopRef ?s"
    by (simp add: started_state del: step.simps)
  have h: "distinct (map obs_id (obstacles ?s)) \<and>
       (\<forall>obs \<in> set (obstacles ?s). obs_id obs < obstacleIdRef ?s) \<and>
       gameLoopRef ?s \<and> ?rock \<in> set (obstacles ?s) \<and> obs_x ?rock - gameSpeed ?s \<le> -100"
    by (simp add: started_state del: step.simps)
  from obstacles_advance_and_prune
         [where s = ?s and gone = ?rock and now = 16 and later = "[(32, Frame)]"] h
  have "obs_id ?rock \<notin> obs_id ` set (obstacles (run [(32, Frame)] (step 16 Frame ?s)))"
    by blast
  with g show ?thesis by (simp del: step.simps run.simps)
qed

section \<open>Rejected requests\<close>

lemma commit_same: "commit now False s s = s"
  by (simp add: commit_def loopDeps_def collisionDeps_def)

lemma settle_same: "settle now False s s = s"
  by (simp add: settle_def commit_same)

lemma keyboard_invalid_requests_ignored:
  assumes "gameState s = Playing"
    and "(code = ''Space'' \<or> code = ''ArrowUp'' \<or> code = ''KeyW'') \<and> (isJumping s \<or> isSliding s)
         \<or> (code = ''ArrowDown'' \<or> code = ''KeyS'') \<and> isJumping s"
  shows "step now (KeyDown code) s = s"
proof -
  from assms have "handleKeyDown code s = s"
    by (auto simp: handleKeyDown_def Let_def)
  then show ?thesis by (simp add: settle_same)
qed

lemma touch_jump_ignored:
  assumes "gameState s = Playing" "y < height / 2" "isJumping s \<or> isSliding s"
  shows "step now (Touch y height) s = s"
proof -
  from assms have "handleTouch y height s = s"
    by (auto simp: handleTouch_def)
  then show ?thesis by (simp add: settle_same)
qed

lemma handleTouch_slide:
  assumes "gameState s = Playing" "y \<ge> height / 2"
  shows "isSliding (handleTouch y height s)"
    "isJumping (handleTouch y height s) = isJumping s"
    "slideTimeouts (handleTouch y height s) = slideTimeouts s + 1"
  using assms by (simp_all add: handleTouch_def)

lemma jumping_state:
  "gameState (step 16 (KeyDown ''Space'') (step 0 (KeyDown ''Space'') (initial None (\<lambda>i. 0)))) = Playing"
  "isJumping (step 16 (KeyDown ''Space'') (step 0 (KeyDown ''Space'') (initial None (\<lambda>i. 0))))"
  "\<not> isSliding (step 16 (KeyDown ''Space'') (step 0 (KeyDown ''Space'') (initial None (\<lambda>i. 0))))"
  "crabVelocity (step 16 (KeyDown ''Space'') (step 0 (KeyDown ''Space'') (initial None (\<lambda>i. 0)))) = -15"
proof -
  let ?s = "step 0 (KeyDown ''Space'') (initial None (\<lambda>i. 0))"
  have a: "gameState ?s = Playing" "\<not> isJumping ?s" "\<not> isSliding ?s"
    by (simp_all add: started_state del: step.simps)
  note j = handleKeyDown_jump [OF a]
  have st: "step 16 (KeyDown ''Space'') ?s = settle 16 False ?s (handleKeyDown ''Space'' ?s)"
    by simp
  have nohit: "\<not> collisionDeps False ?s (handleKeyDown ''Space'' ?s)"
    using j a by (simp add: collisionDeps_def del: step.simps)
  show "gameState (step 16 (KeyDown ''Space'') ?s) = Playing"
    unfolding st using j nohit by (simp add: settle_gameState del: step.simps)
  show "isJumping (step 16 (KeyDown ''Space'') ?s)"
    unfolding st using j by (simp del: step.simps)
  show "\<not> isSliding (step 16 (KeyDown ''Space'') ?s)"
    unfolding st using j a by (simp del: step.simps)
  show "crabVelocity (step 16 (KeyDown ''Space'') ?s) = -15"
    unfolding st using j by (simp add: constants del: step.simps)
qed

text \<open>
  Claim C9.  The keyboard handler ignores a jump while jumping or sliding and a slide
  while jumping (the two lemmas above, with the touch jump).  The touch handler does not
  test \<^verbatim>\<open>isJumping\<close> before it starts a slide: after a start and a jump, a touch on the
  lower half of the field turns the stance from Jumping to Sliding.
\<close>

theorem touch_slide_while_airborne:
  "stance (step 16 (KeyDown ''Space'') (step 0 (KeyDown ''Space'') (initial None (\<lambda>i. 0))))
     = Jumping
   \<and> stance (step 32 (Touch 300 400)
        (step 16 (KeyDown ''Space'') (step 0 (KeyDown ''Space'') (initial None (\<lambda>i. 0)))))
     = Sliding
   \<and> isJumping (step 32 (Touch 300 400)
        (step 16 (KeyDown ''Space'') (step 0 (KeyDown ''Space'') (initial None (\<lambda>i. 0)))))
   \<and> step 32 (Touch 300 400)
        (step 16 (KeyDown ''Space'') (step 0 (KeyDown ''Space'') (initial None (\<lambda>i. 0))))
     \<noteq> step 16 (KeyDown ''Space'') (step 0 (KeyDown ''Space'') (initial None (\<lambda>i. 0)))"
proof -
  let ?a = "step 16 (KeyDown ''Space'') (step 0 (KeyDown ''Space'') (initial None (\<lambda>i. 0)))"
  have "(300::real) \<ge> 400 / 2" by simp
  note t = handleTouch_slide [OF jumping_state(1) this]
  have st: "step 32 (Touch 300 400) ?a = settle 32 False ?a (handleTouch 300 400 ?a)"
    by simp
  have 1: "stance ?a = Jumping"
    using jumping_state by (simp add: stance_def del: step.simps)
  have 2: "isSliding (step 32 (Touch 300 400) ?a)"
    unfolding st using t by (simp del: step.simps)
  have 3: "isJumping (step 32 (Touch 300 400) ?a)"
    unfolding st using t jumping_state by (simp del: step.simps)
  from 2 have 4: "stance (step 32 (Touch 300 400) ?a) = Sliding"
    by (simp add: stance_def del: step.simps)
  from 1 4 have 5: "step 32 (Touch 300 400) ?a \<noteq> ?a" by auto
  from 1 3 4 5 show ?thesis by blast
qed

section \<open>The frame loop and the run state\<close>

lemma gameLoop_obstacles_nospawn:
  assumes "\<not> now - lastObstacleTimeRef s > spawnInterval (score s)"
  shows "obstacles (gameLoop now s) = advanceObstacles (gameSpeed s) (obstacles s)"
  using gameLoop_obstacles [of now s] assms by auto

lemma gameLoop_order:
  "gameLoop now s =
     (sandParticles (updateScore (increaseDifficulty (spawnObstacles now (score s)
        (updateParticles (updateObstacles (gameSpeed s)
           (updateCrabPhysics (crabVelocity s) (isJumping s)
              (updateParallax (gameSpeed s)
                 (s\<lparr>frameCountRef := frameCountRef s + 1\<rparr>))))))))) \<lparr>gameLoopRef := True\<rparr>"
  by (simp add: gameLoop_def Let_def)

lemma step_Frame_fields:
  assumes "gameLoopRef s" "gameState s = Playing"
  shows "gameState (step now Frame s) =
           (if checkCollision (obstacles (gameLoop now (s\<lparr>gameLoopRef := False\<rparr>)))
                 (crabY (gameLoop now (s\<lparr>gameLoopRef := False\<rparr>)))
                 (isSliding (gameLoop now (s\<lparr>gameLoopRef := False\<rparr>)))
            then Gameover else Playing)"
    and "gameLoopRef (step now Frame s) \<longleftrightarrow>
           \<not> checkCollision (obstacles (gameLoop now (s\<lparr>gameLoopRef := False\<rparr>)))
                 (crabY (gameLoop now (s\<lparr>gameLoopRef := False\<rparr>)))
                 (isSliding (gameLoop now (s\<lparr>gameLoopRef := False\<rparr>)))"
    and "crabY (step now Frame s) = crabY (gameLoop now (s\<lparr>gameLoopRef := False\<rparr>))"
    and "isSliding (step now Frame s) = isSliding (gameLoop now (s\<lparr>gameLoopRef := False\<rparr>))"
    and "obstacles (step now Frame s) = obstacles (gameLoop now (s\<lparr>gameLoopRef := False\<rparr>))"
    and "score (step now Frame s) = score (gameLoop now (s\<lparr>gameLoopRef := False\<rparr>))"
    and "gameSpeed (step now Frame s) = gameSpeed (gameLoop now (s\<lparr>gameLoopRef := False\<rparr>))"
    and "parallaxOffset (step now Frame s) = parallaxOffset (gameLoop now (s\<lparr>gameLoopRef := False\<rparr>))"
  using assms
  by (simp_all add: settle_gameState settle_gameLoopRef collisionDeps_def gameLoop_frame)

lemma step_into_playing:
  assumes "gameState s \<noteq> Playing" "gameState (step now ev s) = Playing"
  shows "ev = KeyDown ''Space'' \<or> ev = KeyDown ''Enter'' \<or> (\<exists>y height. ev = Touch y height)"
proof (cases ev)
  case Frame
  with assms show ?thesis
    by (simp add: settle_gameState gameLoop_frame split: if_splits)
next
  case (KeyDown code)
  with assms show ?thesis
    by (auto simp: settle_gameState handleKeyDown_idle split: if_splits)
next
  case (KeyUp code)
  with assms show ?thesis
    by (simp add: settle_gameState split: if_splits)
next
  case (Touch y height)
  then show ?thesis by simp
next
  case SlideTimeout
  with assms show ?thesis
    by (simp add: settle_gameState split: if_splits)
qed

text \<open>
  Claim C1.  In every reachable state a frame request is pending exactly while the game is
  playing, and a frame without a pending request changes nothing, so no update runs in the
  menu or after a game over; only a start request (Space, Enter or a touch) leads back to
  playing.  A frame that runs performs the blocks of \<^verbatim>\<open>gameLoop\<close> in the order parallax,
  player physics, obstacles, particles, spawn, difficulty, score, sand particles; the
  collision test is then made on the player position, slide flag and obstacle list that
  these updates left, and a hit ends the run and leaves no request pending.
\<close>

theorem frame_update_only_while_playing:
  "(gameLoopRef (run evs (initial saved rnd)) \<longleftrightarrow>
      gameState (run evs (initial saved rnd)) = Playing)
   \<and> (\<not> gameLoopRef s \<longrightarrow> step now Frame s = s)
   \<and> (gameLoopRef s \<and> gameState s = Playing \<longrightarrow>
        (let t = gameLoop now (s\<lparr>gameLoopRef := False\<rparr>);
             hit = checkCollision (obstacles t) (crabY t) (isSliding t)
         in gameState (step now Frame s) = (if hit then Gameover else Playing) \<and>
            (gameLoopRef (step now Frame s) \<longleftrightarrow> \<not> hit) \<and>
            crabY (step now Frame s) = crabY t \<and>
            isSliding (step now Frame s) = isSliding t \<and>
            obstacles (step now Frame s) = obstacles t \<and>
            score (step now Frame s) = score t \<and>
            gameSpeed (step now Frame s) = gameSpeed t \<and>
            parallaxOffset (step now Frame s) = parallaxOffset t))
   \<and> gameLoop now s =
       (sandParticles (updateScore (increaseDifficulty (spawnObstacles now (score s)
          (updateParticles (updateObstacles (gameSpeed s)
             (updateCrabPhysics (crabVelocity s) (isJumping s)
                (updateParallax (gameSpeed s)
                   (s\<lparr>frameCountRef := frameCountRef s + 1\<rparr>))))))))) \<lparr>gameLoopRef := True\<rparr>
   \<and> (gameState s \<noteq> Playing \<and> gameState (step now ev s) = Playing \<longrightarrow>
        ev = KeyDown ''Space'' \<or> ev = KeyDown ''Enter'' \<or> (\<exists>y height. ev = Touch y height))"
proof (intro conjI impI)
  show "gameLoopRef (run evs (initial saved rnd)) \<longleftrightarrow>
      gameState (run evs (initial saved rnd)) = Playing"
    using reachable_invariant [of evs saved rnd] by blast
next
  assume "\<not> gameLoopRef s"
  then show "step now Frame s = s" by simp
next
  assume a: "gameLoopRef s \<and> gameState s = Playing"
  then have g: "gameLoopRef s" and p: "gameState s = Playing" by simp_all
  note f = step_Frame_fields [OF g p, of now]
  show "let t = gameLoop now (s\<lparr>gameLoopRef := False\<rparr>);
             hit = checkCollision (obstacles t) (crabY t) (isSliding t)
         in gameState (step now Frame s) = (if hit then Gameover else Playing) \<and>
            (gameLoopRef (step now Frame s) \<longleftrightarrow> \<not> hit) \<and>
            crabY (step now Frame s) = crabY t \<and>
            isSliding (step now Frame s) = isSliding t \<and>
            obstacles (step now Frame s) = obstacles t \<and>
            score (step now Frame s) = score t \<and>
            gameSpeed (step now Frame s) = gameSpeed t \<and>
            parallaxOffset (step now Frame s) = parallaxOffset t"
    unfolding Let_def using f by blast
next
  show "gameLoop now s =
       (sandParticles (updateScore (increaseDifficulty (spawnObstacles now (score s)
          (updateParticles (updateObstacles (gameSpeed s)
             (updateCrabPhysics (crabVelocity s) (isJumping s)
                (updateParallax (gameSpeed s)
                   (s\<lparr>frameCountRef := frameCountRef s + 1\<rparr>))))))))) \<lparr>gameLoopRef := True\<rparr>"
    by (rule gameLoop_order)
next
  assume "gameState s \<noteq> Playing \<and> gameState (step now ev s) = Playing"
  then show "ev = KeyDown ''Space'' \<or> ev = KeyDown ''Enter'' \<or> (\<exists>y height. ev = Touch y height)"
    using step_into_playing [of s now ev] by blast
qed

theorem frame_update_only_while_playing_witness:
  "gameState (initial None (\<lambda>i. 0)) = Menu
   \<and> gameState (step 0 (KeyDown ''Space'') (initial None (\<lambda>i. 0))) = Playing
   \<and> gameLoopRef ((step 0 (KeyDown ''Space'') (initial None (\<lambda>i. 0)))
        \<lparr>obstacles := [\<lparr>obs_id = 0, obs_x = 106, obs_y = 285, obs_type = Rock,
                         obs_width = 45, obs_height = 35\<rparr>], obstacleIdRef := 1\<rparr>)
   \<and> gameState (step 16 Frame ((step 0 (KeyDown ''Space'') (initial None (\<lambda>i. 0)))
        \<lparr>obstacles := [\<lparr>obs_id = 0, obs_x = 106, obs_y = 285, obs_type = Rock,
                         obs_width = 45, obs_height = 35\<rparr>], obstacleIdRef := 1\<rparr>)) = Gameover
   \<and> \<not> gameLoopRef (step 16 Frame ((step 0 (KeyDown ''Space'') (initial None (\<lambda>i. 0)))
        \<lparr>obstacles := [\<lparr>obs_id = 0, obs_x = 106, obs_y = 285, obs_type = Rock,
                         obs_width = 45, obs_height = 35\<rparr>], obstacleIdRef := 1\<rparr>))
   \<and> step 32 Frame (step 16 Frame ((step 0 (KeyDown ''Space'') (initial None (\<lambda>i. 0)))
        \<lparr>obstacles := [\<lparr>obs_id = 0, obs_x = 106, obs_y = 285, obs_type = Rock,
                         obs_width = 45, obs_height = 35\<rparr>], obstacleIdRef := 1\<rparr>))
     = step 16 Frame ((step 0 (KeyDown ''Space'') (initial None (\<lambda>i. 0)))
        \<lparr>obstacles := [\<lparr>obs_id = 0, obs_x = 106, obs_y = 285, obs_type = Rock,
                         obs_width = 45, obs_height = 35\<rparr>], obstacleIdRef := 1\<rparr>)"
proof -
  let ?m = "initial None (\<lambda>i. 0)"
  let ?s = "(step 0 (KeyDown ''Space'') ?m)
        \<lparr>obstacles := [\<lparr>obs_id = 0, obs_x = 106, obs_y = 285, obs_type = Rock,
                         obs_width = 45, obs_height = 35\<rparr>], obstacleIdRef := 1\<rparr>"
  let ?t = "gameLoop 16 (?s\<lparr>gameLoopRef := False\<rparr>)"
  have menu: "gameState ?m = Menu" by (simp add: initial_def)
  have started: "gameState (step 0 (KeyDown ''Space'') ?m) = Playing" by (rule started_state)
  have g: "gameLoopRef ?s" and p: "gameState ?s = Playing"
    by (simp_all add: started_state del: step.simps)
  have ob: "obstacles ?t = [\<lparr>obs_id = 0, obs_x = 100, obs_y = 285, obs_type = Rock,
                             obs_width = 45, obs_height = 35\<rparr>]"
    by (subst gameLoop_obstacles_nospawn)
       (simp_all add: started_state spawnInterval_def advanceObstacles_def del: step.simps)
  have cy: "crabY ?t = 280" and sl: "\<not> isSliding ?t"
    by (simp_all add: gameLoop_crab gameLoop_frame started_state constants del: step.simps)
  have hit: "checkCollision (obstacles ?t) (crabY ?t) (isSliding ?t)"
    unfolding ob cy using sl
    by (simp add: hits_def crabX_def crabYOffset_def crabH_def constants del: step.simps)
  from frame_update_only_while_playing [where s = ?s and now = 16] g p hit
  have over: "gameState (step 16 Frame ?s) = Gameover" and stop: "\<not> gameLoopRef (step 16 Frame ?s)"
    by (simp_all add: Let_def del: step.simps)
  from frame_update_only_while_playing [where s = "step 16 Frame ?s" and now = 32] stop
  have idle: "step 32 Frame (step 16 Frame ?s) = step 16 Frame ?s"
    by blast
  from menu started g over stop idle show ?thesis by blast
qed

section \<open>Time between spawns\<close>

lemma step_lastObstacleTimeRef:
  "lastObstacleTimeRef (step now ev s) = lastObstacleTimeRef s
   \<or> lastObstacleTimeRef (step now ev s) = now"
proof (cases ev)
  case Frame
  then show ?thesis
    by (simp add: settle_lastObstacleTimeRef gameLoop_lastObstacleTimeRef)
next
  case (KeyDown code)
  then show ?thesis by (simp add: settle_lastObstacleTimeRef)
next
  case (KeyUp code)
  then show ?thesis by (simp add: settle_lastObstacleTimeRef handleKeyUp_def)
next
  case (Touch y height)
  then show ?thesis by (simp add: settle_lastObstacleTimeRef)
next
  case SlideTimeout
  then show ?thesis by (simp add: settle_lastObstacleTimeRef)
qed

lemma step_Frame_spawn_time:
  assumes "gameLoopRef s" "now - lastObstacleTimeRef s > spawnInterval (score s)"
  shows "lastObstacleTimeRef (step now Frame s) = now"
  using assms by (simp add: settle_lastObstacleTimeRef gameLoop_lastObstacleTimeRef)

lemma step_spawn_time:
  assumes "obstacleIdRef (step now ev s) \<noteq> obstacleIdRef s"
  shows "lastObstacleTimeRef (step now ev s) = now"
    and "now - lastObstacleTimeRef s > spawnInterval (score s)"
proof -
  from assms step_other_obstacleIdRef [of ev s now] have f: "ev = Frame" and g: "gameLoopRef s"
    by blast+
  from step_Frame_obstacles [OF g, of now] assms f
  show late: "now - lastObstacleTimeRef s > spawnInterval (score s)"
    by (auto simp del: step.simps split: if_splits)
  from step_Frame_spawn_time [OF g late] f
  show "lastObstacleTimeRef (step now ev s) = now" by simp
qed

lemma spawnTimes_before_lastObstacleTimeRef:
  assumes "sorted (map fst evs)" "\<forall>t \<in> set (map fst evs). lastObstacleTimeRef s \<le> t"
  shows "lastObstacleTimeRef s \<le> lastObstacleTimeRef (run evs s) \<and>
         (\<forall>t \<in> set (spawnTimes evs s). t \<le> lastObstacleTimeRef (run evs s))"
  using assms
proof (induction evs arbitrary: s)
  case Nil
  then show ?case by simp
next
  case (Cons e evs)
  obtain now ev where e: "e = (now, ev)" by (cases e)
  let ?s = "step now ev s"
  from Cons.prems e have now: "lastObstacleTimeRef s \<le> now"
    and later: "\<forall>t \<in> set (map fst evs). now \<le> t" and srt: "sorted (map fst evs)"
    by auto
  from step_lastObstacleTimeRef [of now ev s] now
  have le: "lastObstacleTimeRef s \<le> lastObstacleTimeRef ?s" and up: "lastObstacleTimeRef ?s \<le> now"
    by auto
  from up later have "\<forall>t \<in> set (map fst evs). lastObstacleTimeRef ?s \<le> t" by auto
  from Cons.IH [OF srt this]
  have ih1: "lastObstacleTimeRef ?s \<le> lastObstacleTimeRef (run evs ?s)"
    and ih2: "\<forall>t \<in> set (spawnTimes evs ?s). t \<le> lastObstacleTimeRef (run evs ?s)"
    by blast+
  have head: "obstacleIdRef ?s \<noteq> obstacleIdRef s \<longrightarrow> now \<le> lastObstacleTimeRef (run evs ?s)"
    using step_spawn_time(1) [of now ev s] ih1 by auto
  from le ih1 ih2 head e show ?case
    by (auto simp del: step.simps)
qed

lemma first_spawn:
  "gameLoopRef (step 2000 Frame (step 0 (KeyDown ''Space'') (initial None (\<lambda>i. 0))))"
  "obstacleIdRef (step 2000 Frame (step 0 (KeyDown ''Space'') (initial None (\<lambda>i. 0)))) = 1"
  "lastObstacleTimeRef (step 2000 Frame (step 0 (KeyDown ''Space'') (initial None (\<lambda>i. 0)))) = 2000"
  "score (step 2000 Frame (step 0 (KeyDown ''Space'') (initial None (\<lambda>i. 0)))) = 0"
proof -
  let ?s = "step 0 (KeyDown ''Space'') (initial None (\<lambda>i. 0))"
  let ?t = "gameLoop 2000 (?s\<lparr>gameLoopRef := False\<rparr>)"
  have g: "gameLoopRef ?s" and p: "gameState ?s = Playing" by (rule started_state)+
  have late: "2000 - lastObstacleTimeRef ?s > spawnInterval (score ?s)"
    by (simp add: started_state spawnInterval_def del: step.simps)
  from step_Frame_obstacles [OF g, of 2000] late obtain spawned where
    o: "obstacles (step 2000 Frame ?s) = advanceObstacles (gameSpeed ?s) (obstacles ?s) @ spawned"
    and x: "\<forall>obs \<in> set spawned. obs_x obs = GAME_WIDTH + 50"
    and c: "obstacleIdRef (step 2000 Frame ?s) = obstacleIdRef ?s + 1"
    by (auto simp del: step.simps)
  note f = step_Frame_fields [OF g p, of 2000]
  have "obstacles ?t = spawned"
    using o f(5) by (simp add: started_state advanceObstacles_def del: step.simps)
  with x have "\<not> checkCollision (obstacles ?t) (crabY ?t) (isSliding ?t)"
    by (auto simp: checkCollision_hits hits_def crabX_def constants Let_def)
  with f(2) show "gameLoopRef (step 2000 Frame ?s)" by blast
  from c show "obstacleIdRef (step 2000 Frame ?s) = 1"
    by (simp add: started_state del: step.simps)
  from step_Frame_spawn_time [OF g late]
  show "lastObstacleTimeRef (step 2000 Frame ?s) = 2000" .
  from f(6) show "score (step 2000 Frame ?s) = 0"
    by (simp add: gameLoop_score started_state del: step.simps)
qed

text \<open>
  Claim C5.  The spawn interval is 1500 - min(2 * score, 800) milliseconds: it does not
  grow with the score, is never below 700, never negative, and is 1300 at score 100.  A
  frame appends one obstacle exactly when its clock reading exceeds the time stored in
  \<^verbatim>\<open>lastObstacleTimeRef\<close> by more than the interval; nothing but such a frame creates
  an obstacle, and the frame stores its clock reading there.  In a session whose clock
  readings do not go back, an event that creates an obstacle comes later than every
  earlier spawn by more than the interval at the current score.
\<close>

theorem spawn_timing:
  "spawnInterval sc = 1500 - min (int sc * 2) 800
   \<and> (a \<le> b \<longrightarrow> spawnInterval b \<le> spawnInterval a)
   \<and> 700 \<le> spawnInterval sc \<and> 0 \<le> spawnInterval sc
   \<and> spawnInterval 100 = 1300
   \<and> (gameLoopRef s \<longrightarrow>
        length (obstacles (step now Frame s)) =
          length (advanceObstacles (gameSpeed s) (obstacles s)) +
          (if now - lastObstacleTimeRef s > spawnInterval (score s) then 1 else 0))
   \<and> (obstacleIdRef (step now ev s) \<noteq> obstacleIdRef s \<longrightarrow>
        ev = Frame \<and> gameLoopRef s \<and> now - lastObstacleTimeRef s > spawnInterval (score s) \<and>
        lastObstacleTimeRef (step now ev s) = now)
   \<and> (sorted (map fst evs) \<and> (\<forall>t \<in> set (map fst evs). 0 \<le> t \<and> t \<le> tn) \<and>
       obstacleIdRef (step tn ev (run evs (initial saved rnd)))
         \<noteq> obstacleIdRef (run evs (initial saved rnd)) \<longrightarrow>
        (\<forall>t \<in> set (spawnTimes evs (initial saved rnd)).
           tn - t > spawnInterval (score (run evs (initial saved rnd)))))"
proof (intro conjI impI)
  show "spawnInterval sc = 1500 - min (int sc * 2) 800"
    by (simp add: spawnInterval_def)
next
  assume "gameLoopRef s"
  from step_Frame_obstacles [OF this, of now]
  show "length (obstacles (step now Frame s)) =
          length (advanceObstacles (gameSpeed s) (obstacles s)) +
          (if now - lastObstacleTimeRef s > spawnInterval (score s) then 1 else 0)"
    by (auto simp del: step.simps)
next
  assume ch: "obstacleIdRef (step now ev s) \<noteq> obstacleIdRef s"
  with step_other_obstacleIdRef [of ev s now] show "ev = Frame" and "gameLoopRef s"
    by blast+
  from step_spawn_time [OF ch]
  show "now - lastObstacleTimeRef s > spawnInterval (score s)"
    and "lastObstacleTimeRef (step now ev s) = now"
    by blast+
next
  let ?i = "initial saved rnd"
  assume a: "sorted (map fst evs) \<and> (\<forall>t \<in> set (map fst evs). 0 \<le> t \<and> t \<le> tn) \<and>
       obstacleIdRef (step tn ev (run evs ?i)) \<noteq> obstacleIdRef (run evs ?i)"
  then have srt: "sorted (map fst evs)"
    and pos: "\<forall>t \<in> set (map fst evs). lastObstacleTimeRef ?i \<le> t"
    and ch: "obstacleIdRef (step tn ev (run evs ?i)) \<noteq> obstacleIdRef (run evs ?i)"
    by (simp_all add: initial_def)
  from spawnTimes_before_lastObstacleTimeRef [OF srt pos]
  have before: "\<forall>t \<in> set (spawnTimes evs ?i). t \<le> lastObstacleTimeRef (run evs ?i)"
    by blast
  from step_spawn_time(2) [OF ch]
  have "tn - lastObstacleTimeRef (run evs ?i) > spawnInterval (score (run evs ?i))" .
  with before
  show "\<forall>t \<in> set (spawnTimes evs ?i). tn - t > spawnInterval (score (run evs ?i))"
    by fastforce
qed (simp_all add: spawnInterval_facts)

theorem spawn_timing_witness:
  "(10::nat) \<le> 500 \<and> spawnInterval 500 \<le> spawnInterval 10
   \<and> gameLoopRef (step 0 (KeyDown ''Space'') (initial None (\<lambda>i. 0)))
   \<and> length (obstacles (step 2000 Frame (step 0 (KeyDown ''Space'') (initial None (\<lambda>i. 0))))) = 1
   \<and> obstacleIdRef (step 2000 Frame (step 0 (KeyDown ''Space'') (initial None (\<lambda>i. 0))))
       \<noteq> obstacleIdRef (step 0 (KeyDown ''Space'') (initial None (\<lambda>i. 0)))
   \<and> 2000 - lastObstacleTimeRef (step 0 (KeyDown ''Space'') (initial None (\<lambda>i. 0)))
       > spawnInterval (score (step 0 (KeyDown ''Space'') (initial None (\<lambda>i. 0))))
   \<and> lastObstacleTimeRef (step 2000 Frame (step 0 (KeyDown ''Space'') (initial None (\<lambda>i. 0))))
       = 2000
   \<and> sorted (map fst [(0::int, KeyDown ''Space''), (2000, Frame)])
   \<and> obstacleIdRef (step 4000 Frame
         (run [(0, KeyDown ''Space''), (2000, Frame)] (initial None (\<lambda>i. 0))))
       \<noteq> obstacleIdRef (run [(0, KeyDown ''Space''), (2000, Frame)] (initial None (\<lambda>i. 0)))
   \<and> spawnTimes [(0, KeyDown ''Space''), (2000, Frame)] (initial None (\<lambda>i. 0)) = [2000]
   \<and> 4000 - 2000
       > spawnInterval (score (run [(0, KeyDown ''Space''), (2000, Frame)] (initial None (\<lambda>i. 0))))"
proof -
  let ?i = "initial None (\<lambda>i. 0)"
  let ?s = "step 0 (KeyDown ''Space'') ?i"
  let ?evs = "[(0::int, KeyDown ''Space''), (2000, Frame)]"
  have ab: "(10::nat) \<le> 500" by simp
  have g: "gameLoopRef ?s" by (rule started_state)
  have late: "2000 - lastObstacleTimeRef ?s > spawnInterval (score ?s)"
    by (simp add: started_state spawnInterval_def del: step.simps)
  have moved: "obstacleIdRef (step 2000 Frame ?s) \<noteq> obstacleIdRef ?s"
    by (simp add: first_spawn started_state del: step.simps)
  have r: "run ?evs ?i = step 2000 Frame ?s" by (simp del: step.simps)
  have srt: "sorted (map fst ?evs)" by simp
  have rng: "\<forall>t \<in> set (map fst ?evs). 0 \<le> t \<and> t \<le> 4000" by simp
  have st: "spawnTimes ?evs ?i = [2000]"
    using moved step_other_obstacleIdRef [of "KeyDown ''Space''" ?i 0]
    by (simp del: step.simps)
  have again: "obstacleIdRef (step 4000 Frame (run ?evs ?i)) \<noteq> obstacleIdRef (run ?evs ?i)"
    unfolding r using step_Frame_obstacles [OF first_spawn(1), of 4000]
    by (auto simp: first_spawn spawnInterval_def simp del: step.simps)
  note t1 = spawn_timing [where a = 10 and b = 500 and s = ?s and now = 2000 and ev = Frame]
  note t2 = spawn_timing [where evs = ?evs and tn = 4000 and ev = Frame
                             and saved = None and rnd = "\<lambda>i. 0"]
  from t1 ab have 1: "spawnInterval 500 \<le> spawnInterval 10" by blast
  from t1 g late have 2: "length (obstacles (step 2000 Frame ?s)) = 1"
    by (simp add: started_state advanceObstacles_def del: step.simps)
  from t1 moved have 3: "lastObstacleTimeRef (step 2000 Frame ?s) = 2000" by blast
  from t2 srt rng again
  have "\<forall>t \<in> set (spawnTimes ?evs ?i). 4000 - t > spawnInterval (score (run ?evs ?i))"
    by blast
  with st have 4: "4000 - 2000 > spawnInterval (score (run ?evs ?i))" by simp
  from ab 1 g 2 moved late 3 srt again st 4 show ?thesis by blast
qed

section \<open>Landing while the slide flag is set\<close>

lemma run_append: "run (xs @ ys) s = run ys (run xs s)"
  by (induction xs arbitrary: s) auto

lemma flight_frame:
  assumes p: "gameState s = Playing" and g: "gameLoopRef s" and j: "isJumping s"
    and o: "obstacles s = []" and t: "now - lastObstacleTimeRef s \<le> 700"
    and up: "crabY s + (crabVelocity s + GRAVITY) < GROUND_Y - CRAB_HEIGHT"
  shows "gameState (step now Frame s) = Playing" "gameLoopRef (step now Frame s)"
    "isJumping (step now Frame s)" "isSliding (step now Frame s) = isSliding s"
    "obstacles (step now Frame s) = []" "lastObstacleTimeRef (step now Frame s) = now"
    "crabVelocity (step now Frame s) = crabVelocity s + GRAVITY"
    "crabY (step now Frame s) = crabY s + (crabVelocity s + GRAVITY)"
proof -
  let ?t = "gameLoop now (s\<lparr>gameLoopRef := False\<rparr>)"
  note f = step_Frame_fields [OF g p, of now]
  have "\<not> now - lastObstacleTimeRef s > spawnInterval (score s)"
    using t spawnInterval_facts(2) [of "score s"] by simp
  then have ot: "obstacles ?t = []"
    using o by (simp add: gameLoop_obstacles_nospawn advanceObstacles_def)
  then have nohit: "\<not> checkCollision (obstacles ?t) (crabY ?t) (isSliding ?t)" by simp
  from f(1) nohit show "gameState (step now Frame s) = Playing" by simp
  from f(2) nohit show "gameLoopRef (step now Frame s)" by simp
  from f(5) ot show "obstacles (step now Frame s) = []" by simp
  from g j up show "isJumping (step now Frame s)"
    by (simp add: step_Frame_crab gameLoop_crab del: step.simps)
  from g show "isSliding (step now Frame s) = isSliding s"
    by (simp add: step_Frame_crab del: step.simps)
  from g j up show v: "crabVelocity (step now Frame s) = crabVelocity s + GRAVITY"
    by (simp add: step_Frame_crab gameLoop_crab del: step.simps)
  from g j up show "crabY (step now Frame s) = crabY s + (crabVelocity s + GRAVITY)"
    by (simp add: step_Frame_crab gameLoop_crab del: step.simps)
  have "crabVelocity ?t \<noteq> crabVelocity s"
    using j up by (simp add: gameLoop_crab GRAVITY_def)
  then have "loopDeps s ?t" by (simp add: loopDeps_def)
  with g p show "lastObstacleTimeRef (step now Frame s) = now"
    by (simp add: settle_lastObstacleTimeRef gameLoop_frame)
qed

lemma flight_arith:
  fixes x :: real
  assumes "0 \<le> x" "x \<le> 35"
  shows "280 - 15 * x + 0.4 * x * (x + 1) + (- 15 + 0.8 * x + 0.8) < 280"
proof -
  from assms have "(x + 1) * (0.4 * (x + 2)) < (x + 1) * 15"
    by (intro mult_strict_left_mono) simp_all
  moreover have "280 - 15 * x + 0.4 * x * (x + 1) + (- 15 + 0.8 * x + 0.8)
      = 280 + ((x + 1) * (0.4 * (x + 2)) - (x + 1) * 15)"
    by (simp add: algebra_simps add_divide_distrib)
  ultimately show ?thesis by linarith
qed

lemma flight_next:
  fixes x :: real
  shows "280 - 15 * x + 0.4 * x * (x + 1) + (- 15 + 0.8 * x + 0.8)
      = 280 - 15 * (x + 1) + 0.4 * (x + 1) * (x + 1 + 1)"
  by (simp add: algebra_simps add_divide_distrib)

lemma flight_run:
  assumes "gameState s = Playing" "gameLoopRef s" "isJumping s" "obstacles s = []"
    "t0 - lastObstacleTimeRef s \<le> 700"
    "crabVelocity s = - 15 + 0.8 * real k"
    "crabY s = 280 - 15 * real k + 0.4 * real k * (real k + 1)"
    "k + n \<le> 36"
  shows "gameState (run (map (\<lambda>i. (t0 + 16 * int i, Frame)) [0..<n]) s) = Playing \<and>
    gameLoopRef (run (map (\<lambda>i. (t0 + 16 * int i, Frame)) [0..<n]) s) \<and>
    isJumping (run (map (\<lambda>i. (t0 + 16 * int i, Frame)) [0..<n]) s) \<and>
    isSliding (run (map (\<lambda>i. (t0 + 16 * int i, Frame)) [0..<n]) s) = isSliding s \<and>
    obstacles (run (map (\<lambda>i. (t0 + 16 * int i, Frame)) [0..<n]) s) = [] \<and>
    t0 + 16 * int n - lastObstacleTimeRef (run (map (\<lambda>i. (t0 + 16 * int i, Frame)) [0..<n]) s)
      \<le> 700 \<and>
    crabVelocity (run (map (\<lambda>i. (t0 + 16 * int i, Frame)) [0..<n]) s)
      = - 15 + 0.8 * real (k + n) \<and>
    crabY (run (map (\<lambda>i. (t0 + 16 * int i, Frame)) [0..<n]) s)
      = 280 - 15 * real (k + n) + 0.4 * real (k + n) * (real (k + n) + 1)"
  using assms(8)
proof (induction n)
  case 0
  with assms show ?case by simp
next
  case (Suc n)
  let ?r = "run (map (\<lambda>i. (t0 + 16 * int i, Frame)) [0..<n]) s"
  let ?now = "t0 + 16 * int n"
  from Suc have ih: "gameState ?r = Playing" "gameLoopRef ?r" "isJumping ?r"
    "isSliding ?r = isSliding s" "obstacles ?r = []"
    "?now - lastObstacleTimeRef ?r \<le> 700"
    "crabVelocity ?r = - 15 + 0.8 * real (k + n)"
    "crabY ?r = 280 - 15 * real (k + n) + 0.4 * real (k + n) * (real (k + n) + 1)"
    by simp_all
  from Suc.prems have "real (k + n) \<le> 35" by simp
  from flight_arith [OF _ this] ih(7) ih(8)
  have up: "crabY ?r + (crabVelocity ?r + GRAVITY) < GROUND_Y - CRAB_HEIGHT"
    by (simp add: constants)
  note f = flight_frame [OF ih(1) ih(2) ih(3) ih(5) ih(6) up]
  have r: "run (map (\<lambda>i. (t0 + 16 * int i, Frame)) [0..<Suc n]) s = step ?now Frame ?r"
    by (simp add: run_append del: step.simps)
  have m: "real (k + Suc n) = real (k + n) + 1" by simp
  have v: "crabVelocity (step ?now Frame ?r) = - 15 + 0.8 * real (k + Suc n)"
    unfolding m f(7) ih(7) GRAVITY_def by (simp add: distrib_left)
  have y: "crabY (step ?now Frame ?r)
      = 280 - 15 * real (k + Suc n) + 0.4 * real (k + Suc n) * (real (k + Suc n) + 1)"
    unfolding m f(8) ih(7) ih(8) GRAVITY_def by (rule flight_next)
  have t: "t0 + 16 * int (Suc n) - lastObstacleTimeRef (step ?now Frame ?r) \<le> 700"
    unfolding f(6) by simp
  show ?case
    unfolding r using f(1) f(2) f(3) f(4) f(5) ih(4) v y t by simp
qed


lemma jumping_state_more:
  "gameLoopRef (step 16 (KeyDown ''Space'') (step 0 (KeyDown ''Space'') (initial None (\<lambda>i. 0))))"
  "obstacles (step 16 (KeyDown ''Space'') (step 0 (KeyDown ''Space'') (initial None (\<lambda>i. 0)))) = []"
  "crabY (step 16 (KeyDown ''Space'') (step 0 (KeyDown ''Space'') (initial None (\<lambda>i. 0)))) = 280"
  "lastObstacleTimeRef (step 16 (KeyDown ''Space'') (step 0 (KeyDown ''Space'') (initial None (\<lambda>i. 0)))) = 16"
proof -
  let ?s = "step 0 (KeyDown ''Space'') (initial None (\<lambda>i. 0))"
  have a: "gameState ?s = Playing" "\<not> isJumping ?s" "\<not> isSliding ?s"
    by (simp_all add: started_state del: step.simps)
  note j = handleKeyDown_jump [OF a]
  have st: "step 16 (KeyDown ''Space'') ?s = settle 16 False ?s (handleKeyDown ''Space'' ?s)"
    by simp
  have nohit: "\<not> collisionDeps False ?s (handleKeyDown ''Space'' ?s)"
    using j a by (simp add: collisionDeps_def del: step.simps)
  have deps: "loopDeps ?s (handleKeyDown ''Space'' ?s)"
    using j a by (simp add: loopDeps_def del: step.simps)
  show "gameLoopRef (step 16 (KeyDown ''Space'') ?s)"
    unfolding st using j nohit deps by (simp add: settle_gameLoopRef del: step.simps)
  show "obstacles (step 16 (KeyDown ''Space'') ?s) = []"
    unfolding st using a by (simp add: handleKeyDown_playing started_state del: step.simps)
  show "crabY (step 16 (KeyDown ''Space'') ?s) = 280"
    unfolding st using j by (simp add: started_state del: step.simps)
  show "lastObstacleTimeRef (step 16 (KeyDown ''Space'') ?s) = 16"
    unfolding st using j deps by (simp add: settle_lastObstacleTimeRef del: step.simps)
qed

lemma touch_slide_fields:
  assumes p: "gameState s = Playing" and g: "gameLoopRef s" and y: "y \<ge> height / 2"
    and o: "obstacles s = []"
  shows "gameState (step now (Touch y height) s) = Playing"
    "gameLoopRef (step now (Touch y height) s)"
    "isSliding (step now (Touch y height) s)"
    "isJumping (step now (Touch y height) s) = isJumping s"
    "obstacles (step now (Touch y height) s) = []"
    "crabVelocity (step now (Touch y height) s) = crabVelocity s"
    "crabY (step now (Touch y height) s) = crabY s"
proof -
  from p y have h: "handleTouch y height s = s\<lparr>isSliding := True, slideTimeouts := slideTimeouts s + 1\<rparr>"
    by (simp add: handleTouch_def)
  from p o show "gameState (step now (Touch y height) s) = Playing"
    by (simp add: settle_gameState h)
  from p g o show "gameLoopRef (step now (Touch y height) s)"
    by (simp add: settle_gameLoopRef h)
  show "isSliding (step now (Touch y height) s)" by (simp add: h)
  show "isJumping (step now (Touch y height) s) = isJumping s" by (simp add: h)
  from o show "obstacles (step now (Touch y height) s) = []" by (simp add: h)
  show "crabVelocity (step now (Touch y height) s) = crabVelocity s" by (simp add: h)
  show "crabY (step now (Touch y height) s) = crabY s" by (simp add: h)
qed

text \<open>
  Claim C4.  The integration is as the claim says except for the stance after landing:
  the landing code clears the jump flag only, and the touch handler can set the slide
  flag in mid-air.  In the session start, jump, ten frames, a touch on the lower half of
  the field at 180 ms, 26 more frames, the player is airborne at 272.8 with velocity
  13.8; the next frame, at 608 ms and before the slide timer of the touch expires, puts
  the position at 280 and the velocity at 0 and leaves the stance Sliding, not Standing.
\<close>

theorem landing_with_slide_flag:
  "isJumping (run ([(0, KeyDown ''Space''), (16, KeyDown ''Space'')] @
                   map (\<lambda>i. (32 + 16 * int i, Frame)) [0..<10] @
                   [(180, Touch 300 400)] @
                   map (\<lambda>i. (192 + 16 * int i, Frame)) [0..<26])
              (initial None (\<lambda>i. 0)))
   \<and> crabY (run ([(0, KeyDown ''Space''), (16, KeyDown ''Space'')] @
                   map (\<lambda>i. (32 + 16 * int i, Frame)) [0..<10] @
                   [(180, Touch 300 400)] @
                   map (\<lambda>i. (192 + 16 * int i, Frame)) [0..<26])
              (initial None (\<lambda>i. 0))) = 272.8
   \<and> crabVelocity (run ([(0, KeyDown ''Space''), (16, KeyDown ''Space'')] @
                   map (\<lambda>i. (32 + 16 * int i, Frame)) [0..<10] @
                   [(180, Touch 300 400)] @
                   map (\<lambda>i. (192 + 16 * int i, Frame)) [0..<26])
              (initial None (\<lambda>i. 0))) = 13.8
   \<and> crabY (run ([(0, KeyDown ''Space''), (16, KeyDown ''Space'')] @
                   map (\<lambda>i. (32 + 16 * int i, Frame)) [0..<10] @
                   [(180, Touch 300 400)] @
                   map (\<lambda>i. (192 + 16 * int i, Frame)) [0..<26] @
                   [(608, Frame)])
              (initial None (\<lambda>i. 0))) = 280
   \<and> crabVelocity (run ([(0, KeyDown ''Space''), (16, KeyDown ''Space'')] @
                   map (\<lambda>i. (32 + 16 * int i, Frame)) [0..<10] @
                   [(180, Touch 300 400)] @
                   map (\<lambda>i. (192 + 16 * int i, Frame)) [0..<26] @
                   [(608, Frame)])
              (initial None (\<lambda>i. 0))) = 0
   \<and> stance (run ([(0, KeyDown ''Space''), (16, KeyDown ''Space'')] @
                   map (\<lambda>i. (32 + 16 * int i, Frame)) [0..<10] @
                   [(180, Touch 300 400)] @
                   map (\<lambda>i. (192 + 16 * int i, Frame)) [0..<26] @
                   [(608, Frame)])
              (initial None (\<lambda>i. 0))) = Sliding
   \<and> stance (run ([(0, KeyDown ''Space''), (16, KeyDown ''Space'')] @
                   map (\<lambda>i. (32 + 16 * int i, Frame)) [0..<10] @
                   [(180, Touch 300 400)] @
                   map (\<lambda>i. (192 + 16 * int i, Frame)) [0..<26] @
                   [(608, Frame)])
              (initial None (\<lambda>i. 0))) \<noteq> Standing"
proof -
  let ?a = "step 16 (KeyDown ''Space'') (step 0 (KeyDown ''Space'') (initial None (\<lambda>i. 0)))"
  let ?f1 = "map (\<lambda>i. (32 + 16 * int i, Frame)) [0..<10]"
  let ?f2 = "map (\<lambda>i. (192 + 16 * int i, Frame)) [0..<26]"
  let ?b = "run ?f1 ?a"
  let ?c = "step 180 (Touch 300 400) ?b"
  let ?d = "run ?f2 ?c"
  have a: "gameState ?a = Playing" "gameLoopRef ?a" "isJumping ?a" "obstacles ?a = []"
    "32 - lastObstacleTimeRef ?a \<le> 700"
    "crabVelocity ?a = - 15 + 0.8 * real 0"
    "crabY ?a = 280 - 15 * real 0 + 0.4 * real 0 * (real 0 + 1)"
    by (simp_all add: jumping_state jumping_state_more del: step.simps)
  have "(0::nat) + 10 \<le> 36" by simp
  from flight_run [OF a this]
  have b: "gameState ?b = Playing" "gameLoopRef ?b" "isJumping ?b" "obstacles ?b = []"
    "32 + 16 * int 10 - lastObstacleTimeRef ?b \<le> 700"
    "crabVelocity ?b = - 15 + 0.8 * real 10"
    "crabY ?b = 280 - 15 * real 10 + 0.4 * real 10 * (real 10 + 1)"
    by simp_all
  have half: "(300::real) \<ge> 400 / 2" by simp
  note t = touch_slide_fields [OF b(1) b(2) half b(4), of 180]
  from step_lastObstacleTimeRef [of 180 "Touch 300 400" ?b] b(5)
  have tl: "192 - lastObstacleTimeRef ?c \<le> 700" by auto
  have c: "gameState ?c = Playing" "gameLoopRef ?c" "isJumping ?c" "obstacles ?c = []"
    "192 - lastObstacleTimeRef ?c \<le> 700"
    "crabVelocity ?c = - 15 + 0.8 * real 10"
    "crabY ?c = 280 - 15 * real 10 + 0.4 * real 10 * (real 10 + 1)"
    using t b tl by (simp_all del: step.simps)
  have "(10::nat) + 26 \<le> 36" by simp
  from flight_run [OF c this] t(3)
  have d: "gameLoopRef ?d" "isJumping ?d" "isSliding ?d"
    "crabVelocity ?d = 13.8" "crabY ?d = 272.8"
    by (simp_all del: step.simps)
  have r1: "run ([(0, KeyDown ''Space''), (16, KeyDown ''Space'')] @ ?f1 @
                 [(180, Touch 300 400)] @ ?f2) (initial None (\<lambda>i. 0)) = ?d"
    by (simp only: run_append run.simps)
  have r2: "run ([(0, KeyDown ''Space''), (16, KeyDown ''Space'')] @ ?f1 @
                 [(180, Touch 300 400)] @ ?f2 @ [(608, Frame)]) (initial None (\<lambda>i. 0))
              = step 608 Frame ?d"
    by (simp only: run_append run.simps)
  have land: "crabY ?d + (crabVelocity ?d + GRAVITY) \<ge> GROUND_Y - CRAB_HEIGHT"
    unfolding d by (simp add: constants)
  from d(1) d(2) land
  have e: "crabY (step 608 Frame ?d) = 280" "crabVelocity (step 608 Frame ?d) = 0"
    "\<not> isJumping (step 608 Frame ?d)"
    by (simp_all add: step_Frame_crab gameLoop_crab constants del: step.simps)
  from d(1) d(3) have "isSliding (step 608 Frame ?d)"
    by (simp add: step_Frame_crab del: step.simps)
  then have s: "stance (step 608 Frame ?d) = Sliding"
    by (simp add: stance_def del: step.simps)
  show ?thesis
    unfolding r1 r2 using d e s by (simp del: step.simps)
qed

end
